theory Spec2Isabelle
  imports Complex_Main "HOL-Library.AList"
begin

section \<open>Component data types\<close>

text \<open>
  Every class that extends \<^verbatim>\<open>Component\<close> becomes a record; a field \<^verbatim>\<open>f\<close> of
  class \<^verbatim>\<open>K\<close> is the selector \<open>K_f\<close>. JavaScript numbers are modelled as
  \<open>real\<close>: the properties proved below concern comparisons, clamps and sums, so
  rounding, NaN and the infinities are outside the model. The back-pointer \<^verbatim>\<open>entity\<close>, callbacks and
  fields drawn from \<^verbatim>\<open>Math.random\<close> are left out; no modelled function reads them.
\<close>

record Transform =
  Transform_x :: real
  Transform_y :: real
  Transform_width :: real
  Transform_height :: real
  Transform_rotation :: real
  Transform_scale :: real
  Transform_previousX :: real
  Transform_previousY :: real

record Velocity =
  Velocity_vx :: real
  Velocity_vy :: real
  Velocity_maxVx :: real
  Velocity_maxVy :: real
  Velocity_friction :: real
  Velocity_gravity :: real

record Sprite =
  Sprite_type :: string
  Sprite_frame :: string
  Sprite_layer :: real
  Sprite_visible :: bool
  Sprite_opacity :: real
  Sprite_flipX :: bool
  Sprite_flipY :: bool
  Sprite_tint :: "string option"

record Animation =
  Animation_frames :: "string list"
  Animation_duration :: real
  Animation_loop :: bool
  Animation_currentFrame :: nat
  Animation_timer :: real
  Animation_playing :: bool

record Physics =
  Physics_static :: bool
  Physics_bounce :: real
  Physics_mass :: real
  Physics_grounded :: bool
  Physics_onGround :: bool
  Physics_groundY :: real

record Collider =
  Collider_width :: real
  Collider_height :: real
  Collider_offsetX :: real
  Collider_offsetY :: real
  Collider_isTrigger :: bool
  Collider_layer :: string
  Collider_tags :: "string list"

record Health =
  Health_current :: real
  Health_max :: real
  Health_invulnerable :: bool
  Health_invulnerabilityTime :: real

record Actions =
  Actions_jump :: bool
  Actions_duck :: bool
  Actions_spray :: bool

record PlayerController =
  PlayerController_jumpForce :: real
  PlayerController_moveSpeed :: real
  PlayerController_isJumping :: bool
  PlayerController_isDucking :: bool
  PlayerController_isSpraying :: bool
  PlayerController_sprayPower :: real
  PlayerController_maxSprayPower :: real
  PlayerController_sprayRegenRate :: real
  PlayerController_actions :: Actions

text \<open>
  The free-form \<^verbatim>\<open>config\<close> object of an \<^verbatim>\<open>AIController\<close>: each property the
  AI system reads is an optional number (\<open>None\<close> when the property is absent).
\<close>

record AIConfig =
  AIConfig_speed :: "real option"
  AIConfig_range :: "real option"
  AIConfig_alertRange :: "real option"
  AIConfig_startX :: "real option"
  AIConfig_idleTime :: "real option"

record Point =
  Point_x :: real
  Point_y :: real

record AIController =
  AIController_type :: string
  AIController_config :: AIConfig
  AIController_state :: string
  AIController_timer :: real
  AIController_target :: "Point option"
  AIController_pathIndex :: nat
  AIController_direction :: "real option"

record Collectible =
  Collectible_type :: string
  Collectible_value :: real
  Collectible_collected :: bool
  Collectible_floatSpeed :: real
  Collectible_floatAmount :: real

record Particle =
  Particle_lifetime :: real
  Particle_maxLifetime :: real
  Particle_fadeOut :: bool
  Particle_color :: string
  Particle_size :: real
  Particle_trail :: "Point list"
  Particle_trailLength :: nat

record Obstacle =
  Obstacle_type :: string
  Obstacle_damage :: real
  Obstacle_hit :: bool
  Obstacle_moveSpeed :: real
  Obstacle_activationDistance :: real

record StreetArt =
  StreetArt_painted :: bool
  StreetArt_paintProgress :: real
  StreetArt_requiredPaint :: real
  StreetArt_artStyle :: string
  StreetArt_colors :: "string list"
  StreetArt_baseColor :: string

section \<open>Health\<close>

text \<open>
  \<^verbatim>\<open>takeDamage(amount)\<close> returns a flag and mutates the component; the model returns
  the flag together with the component after the call.
\<close>

definition takeDamage :: "Health \<Rightarrow> real \<Rightarrow> bool \<times> Health" where
  "takeDamage h amount =
     (if Health_invulnerable h then (False, h)
      else (True, h\<lparr>Health_current := max 0 (Health_current h - amount)\<rparr>))"

definition heal :: "Health \<Rightarrow> real \<Rightarrow> Health" where
  "heal h amount = h\<lparr>Health_current := min (Health_max h) (Health_current h + amount)\<rparr>"

definition new_Health :: "real \<Rightarrow> Health" where
  "new_Health maxHealth =
     \<lparr>Health_current = maxHealth, Health_max = maxHealth,
      Health_invulnerable = False, Health_invulnerabilityTime = 0\<rparr>"

definition health_in_range :: "Health \<Rightarrow> bool" where
  "health_in_range h = (0 \<le> Health_current h \<and> Health_current h \<le> Health_max h)"

section \<open>Entities\<close>

text \<open>
  An entity's \<^verbatim>\<open>components\<close> is a \<^verbatim>\<open>Map\<close> written only by
  \<^verbatim>\<open>addComponent\<close>, under the key \<^verbatim>\<open>component.constructor.name\<close>. The model
  keeps the components in insertion order and derives each key from its component, so
  that a lookup by name is a search for the first component of that class.
  \<^verbatim>\<open>tags\<close> is a \<^verbatim>\<open>Set\<close> of strings, kept as a list in insertion order.
\<close>

datatype component =
    CTransform Transform
  | CVelocity Velocity
  | CSprite Sprite
  | CAnimation Animation
  | CPhysics Physics
  | CCollider Collider
  | CHealth Health
  | CPlayerController PlayerController
  | CAIController AIController
  | CCollectible Collectible
  | CParticle Particle
  | CObstacle Obstacle
  | CStreetArt StreetArt

fun constructor_name :: "component \<Rightarrow> string" where
  "constructor_name (CTransform _) = ''Transform''"
| "constructor_name (CVelocity _) = ''Velocity''"
| "constructor_name (CSprite _) = ''Sprite''"
| "constructor_name (CAnimation _) = ''Animation''"
| "constructor_name (CPhysics _) = ''Physics''"
| "constructor_name (CCollider _) = ''Collider''"
| "constructor_name (CHealth _) = ''Health''"
| "constructor_name (CPlayerController _) = ''PlayerController''"
| "constructor_name (CAIController _) = ''AIController''"
| "constructor_name (CCollectible _) = ''Collectible''"
| "constructor_name (CParticle _) = ''Particle''"
| "constructor_name (CObstacle _) = ''Obstacle''"
| "constructor_name (CStreetArt _) = ''StreetArt''"


record Entity =
  Entity_id :: string
  Entity_components :: "component list"
  Entity_tags :: "string list"
  Entity_active :: bool
  Entity_destroy :: bool

definition new_Entity :: "string \<Rightarrow> Entity" where
  "new_Entity ident =
     \<lparr>Entity_id = ident, Entity_components = [], Entity_tags = [],
      Entity_active = True, Entity_destroy = False\<rparr>"

text \<open>\<^verbatim>\<open>Map.set\<close>: an existing key keeps its place and takes the new value.\<close>

fun components_set :: "component \<Rightarrow> component list \<Rightarrow> component list" where
  "components_set c [] = [c]"
| "components_set c (d # ds) =
     (if constructor_name d = constructor_name c then c # ds else d # components_set c ds)"

definition addComponent :: "component \<Rightarrow> Entity \<Rightarrow> Entity" where
  "addComponent c e = e\<lparr>Entity_components := components_set c (Entity_components e)\<rparr>"

text \<open>
  A property read on \<^verbatim>\<open>undefined\<close> or \<^verbatim>\<open>null\<close> throws; the model returns
  \<open>Inl TypeError\<close> there.
\<close>

datatype error = TypeError

text \<open>
  The argument of \<^verbatim>\<open>getComponent\<close>, \<^verbatim>\<open>hasComponent\<close>,
  \<^verbatim>\<open>removeComponent\<close> and \<^verbatim>\<open>getEntitiesWith\<close> is any JavaScript value, and
  \<^verbatim>\<open>typeof c === 'string' ? c : c.name\<close> turns it into the key that is looked up:
  a string is the key itself (\<open>ByString\<close>); for a class, or any other value with a
  string \<^verbatim>\<open>name\<close>, the key is that name (\<open>ByClass\<close>); for another value that
  is not \<^verbatim>\<open>null\<close> or \<^verbatim>\<open>undefined\<close> the key is \<^verbatim>\<open>undefined\<close>, which is the key
  of no component (\<open>Unnamed\<close>, key \<open>None\<close>); reading \<^verbatim>\<open>.name\<close> of
  \<^verbatim>\<open>null\<close> or \<^verbatim>\<open>undefined\<close> throws (\<open>Nullish\<close>).
\<close>

datatype componentClass = ByString string | ByClass string | Unnamed | Nullish

fun className :: "componentClass \<Rightarrow> error + string option" where
  "className (ByString s) = Inr (Some s)"
| "className (ByClass n) = Inr (Some n)"
| "className Unnamed = Inr None"
| "className Nullish = Inl TypeError"

text \<open>\<^verbatim>\<open>Map.get\<close>, \<^verbatim>\<open>Map.has\<close> and \<^verbatim>\<open>Map.delete\<close> on the components, by key.\<close>

definition components_get :: "Entity \<Rightarrow> string option \<Rightarrow> component option" where
  "components_get e key =
     (case key of
        None \<Rightarrow> None
      | Some n \<Rightarrow> find (\<lambda>c. constructor_name c = n) (Entity_components e))"

definition components_has :: "Entity \<Rightarrow> string option \<Rightarrow> bool" where
  "components_has e key =
     (case key of
        None \<Rightarrow> False
      | Some n \<Rightarrow> (\<exists>c \<in> set (Entity_components e). constructor_name c = n))"

definition components_delete :: "string option \<Rightarrow> Entity \<Rightarrow> Entity" where
  "components_delete key e =
     (case key of
        None \<Rightarrow> e
      | Some n \<Rightarrow> e\<lparr>Entity_components := filter (\<lambda>c. constructor_name c \<noteq> n) (Entity_components e)\<rparr>)"

definition getComponent :: "Entity \<Rightarrow> componentClass \<Rightarrow> error + component option" where
  "getComponent e k =
     (case className k of Inl err \<Rightarrow> Inl err | Inr key \<Rightarrow> Inr (components_get e key))"

definition hasComponent :: "Entity \<Rightarrow> componentClass \<Rightarrow> error + bool" where
  "hasComponent e k =
     (case className k of Inl err \<Rightarrow> Inl err | Inr key \<Rightarrow> Inr (components_has e key))"

definition removeComponent :: "componentClass \<Rightarrow> Entity \<Rightarrow> error + Entity" where
  "removeComponent k e =
     (case className k of Inl err \<Rightarrow> Inl err | Inr key \<Rightarrow> Inr (components_delete key e))"

definition addTag :: "string \<Rightarrow> Entity \<Rightarrow> Entity" where
  "addTag t e = (if t \<in> set (Entity_tags e) then e else e\<lparr>Entity_tags := Entity_tags e @ [t]\<rparr>)"

definition hasTag :: "Entity \<Rightarrow> string \<Rightarrow> bool" where
  "hasTag e t = (t \<in> set (Entity_tags e))"

definition removeTag :: "string \<Rightarrow> Entity \<Rightarrow> Entity" where
  "removeTag t e = e\<lparr>Entity_tags := removeAll t (Entity_tags e)\<rparr>"

text \<open>
  Typed reads of a component, as the systems do with
  \<^verbatim>\<open>entity.getComponent('Transform')\<close>: the argument is a string literal, so the
  read does not throw, and \<open>None\<close> stands for \<^verbatim>\<open>undefined\<close>.
\<close>

definition getTransform :: "Entity \<Rightarrow> Transform option" where
  "getTransform e = (case getComponent e (ByString ''Transform'') of Inr (Some (CTransform t)) \<Rightarrow> Some t | _ \<Rightarrow> None)"

definition getVelocity :: "Entity \<Rightarrow> Velocity option" where
  "getVelocity e = (case getComponent e (ByString ''Velocity'') of Inr (Some (CVelocity v)) \<Rightarrow> Some v | _ \<Rightarrow> None)"

definition getPhysics :: "Entity \<Rightarrow> Physics option" where
  "getPhysics e = (case getComponent e (ByString ''Physics'') of Inr (Some (CPhysics p)) \<Rightarrow> Some p | _ \<Rightarrow> None)"

definition getCollider :: "Entity \<Rightarrow> Collider option" where
  "getCollider e = (case getComponent e (ByString ''Collider'') of Inr (Some (CCollider c)) \<Rightarrow> Some c | _ \<Rightarrow> None)"

definition getSprite :: "Entity \<Rightarrow> Sprite option" where
  "getSprite e = (case getComponent e (ByString ''Sprite'') of Inr (Some (CSprite s)) \<Rightarrow> Some s | _ \<Rightarrow> None)"

definition getHealth :: "Entity \<Rightarrow> Health option" where
  "getHealth e = (case getComponent e (ByString ''Health'') of Inr (Some (CHealth h)) \<Rightarrow> Some h | _ \<Rightarrow> None)"

definition getPlayerController :: "Entity \<Rightarrow> PlayerController option" where
  "getPlayerController e =
     (case getComponent e (ByString ''PlayerController'') of Inr (Some (CPlayerController p)) \<Rightarrow> Some p | _ \<Rightarrow> None)"

definition getAIController :: "Entity \<Rightarrow> AIController option" where
  "getAIController e =
     (case getComponent e (ByString ''AIController'') of Inr (Some (CAIController a)) \<Rightarrow> Some a | _ \<Rightarrow> None)"

definition getCollectible :: "Entity \<Rightarrow> Collectible option" where
  "getCollectible e =
     (case getComponent e (ByString ''Collectible'') of Inr (Some (CCollectible c)) \<Rightarrow> Some c | _ \<Rightarrow> None)"

definition getStreetArt :: "Entity \<Rightarrow> StreetArt option" where
  "getStreetArt e =
     (case getComponent e (ByString ''StreetArt'') of Inr (Some (CStreetArt a)) \<Rightarrow> Some a | _ \<Rightarrow> None)"

text \<open>
  A system that assigns to a field of a component it has read mutates the component
  object the entity holds: the model stores the changed component back in its place.
\<close>

definition writeComponent :: "component \<Rightarrow> Entity \<Rightarrow> Entity" where
  "writeComponent c e =
     e\<lparr>Entity_components :=
         map (\<lambda>d. if constructor_name d = constructor_name c then c else d) (Entity_components e)\<rparr>"

section \<open>EntityManager\<close>

text \<open>
  Entities are objects shared by reference between the primary store, the tag indices
  and the staging buffers, and systems flip their \<^verbatim>\<open>destroy\<close> flag in place. The
  model therefore separates the reference (\<open>ref\<close>) from the object: a heap maps each
  reference to the entity it currently denotes, and the manager holds references only.
  \<^verbatim>\<open>entities\<close> and \<^verbatim>\<open>entitiesByTag\<close> are \<^verbatim>\<open>Map\<close>s, kept as association
  lists in insertion order; \<^verbatim>\<open>indexOf\<close> compares references.
\<close>

type_synonym ref = nat

type_synonym heap = "ref \<Rightarrow> Entity"

record EntityManager =
  entities :: "(string \<times> ref) list"
  entitiesByTag :: "(string \<times> ref list) list"
  entitiesToAdd :: "ref list"
  entitiesToRemove :: "ref list"

definition new_EntityManager :: EntityManager where
  "new_EntityManager =
     \<lparr>entities = [], entitiesByTag = [], entitiesToAdd = [], entitiesToRemove = []\<rparr>"

definition addEntity :: "ref \<Rightarrow> EntityManager \<Rightarrow> EntityManager" where
  "addEntity r m = m\<lparr>entitiesToAdd := entitiesToAdd m @ [r]\<rparr>"

definition removeEntity :: "ref \<Rightarrow> EntityManager \<Rightarrow> EntityManager" where
  "removeEntity r m = m\<lparr>entitiesToRemove := entitiesToRemove m @ [r]\<rparr>"

definition getEntity :: "EntityManager \<Rightarrow> string \<Rightarrow> ref option" where
  "getEntity m ident = map_of (entities m) ident"

text \<open>
  \<^verbatim>\<open>componentClasses.every(c => entity.hasComponent(c))\<close> stops at the first kind
  the entity lacks, and throws where \<^verbatim>\<open>hasComponent\<close> throws; the loop of
  \<^verbatim>\<open>getEntitiesWith\<close> over the stored entities ends with the first throw.
\<close>

fun every_hasComponent :: "Entity \<Rightarrow> componentClass list \<Rightarrow> error + bool" where
  "every_hasComponent e [] = Inr True"
| "every_hasComponent e (componentClass # rest) =
     (case hasComponent e componentClass of
        Inl err \<Rightarrow> Inl err
      | Inr b \<Rightarrow> if b then every_hasComponent e rest else Inr False)"

fun entities_with :: "heap \<Rightarrow> componentClass list \<Rightarrow> ref list \<Rightarrow> error + ref list" where
  "entities_with h componentClasses [] = Inr []"
| "entities_with h componentClasses (r # rs) =
     (if \<not> Entity_active (h r) \<or> Entity_destroy (h r) then entities_with h componentClasses rs
      else
        (case every_hasComponent (h r) componentClasses of
           Inl err \<Rightarrow> Inl err
         | Inr hasAllComponents \<Rightarrow>
             (case entities_with h componentClasses rs of
                Inl err \<Rightarrow> Inl err
              | Inr result \<Rightarrow> Inr (if hasAllComponents then r # result else result))))"

definition getEntitiesWith :: "heap \<Rightarrow> EntityManager \<Rightarrow> componentClass list \<Rightarrow> error + ref list" where
  "getEntitiesWith h m componentClasses =
     entities_with h componentClasses (map snd (entities m))"

text \<open>The entities a call returns: those of the result list, none when the call throws.\<close>

fun returned :: "error + ref list \<Rightarrow> ref list" where
  "returned (Inr result) = result"
| "returned (Inl err) = []"

definition bucket :: "(string \<times> ref list) list \<Rightarrow> string \<Rightarrow> ref list" where
  "bucket idx t = (case map_of idx t of Some taggedEntities \<Rightarrow> taggedEntities | None \<Rightarrow> [])"

definition getEntitiesByTag :: "EntityManager \<Rightarrow> string \<Rightarrow> ref list" where
  "getEntitiesByTag m t = bucket (entitiesByTag m) t"

text \<open>
  The three loops of \<^verbatim>\<open>update()\<close>, each with its loop body: adding the staged
  entities, staging the stored entities marked \<^verbatim>\<open>destroy\<close>, removing the staged ones.
\<close>

definition index_tag :: "ref \<Rightarrow> string \<Rightarrow> (string \<times> ref list) list \<Rightarrow> (string \<times> ref list) list" where
  "index_tag r t idx = AList.update t (bucket idx t @ [r]) idx"

definition add_staged :: "heap \<Rightarrow> ref \<Rightarrow> EntityManager \<Rightarrow> EntityManager" where
  "add_staged h r m =
     m\<lparr>entities := AList.update (Entity_id (h r)) r (entities m),
       entitiesByTag := fold (index_tag r) (Entity_tags (h r)) (entitiesByTag m)\<rparr>"

definition unindex_tag :: "ref \<Rightarrow> string \<Rightarrow> (string \<times> ref list) list \<Rightarrow> (string \<times> ref list) list" where
  "unindex_tag r t idx =
     (case map_of idx t of
        None \<Rightarrow> idx
      | Some taggedEntities \<Rightarrow> AList.update t (remove1 r taggedEntities) idx)"

definition remove_staged :: "heap \<Rightarrow> ref \<Rightarrow> EntityManager \<Rightarrow> EntityManager" where
  "remove_staged h r m =
     m\<lparr>entities := AList.delete (Entity_id (h r)) (entities m),
       entitiesByTag := fold (unindex_tag r) (Entity_tags (h r)) (entitiesByTag m)\<rparr>"

definition flush_additions :: "heap \<Rightarrow> EntityManager \<Rightarrow> EntityManager" where
  "flush_additions h m = (fold (add_staged h) (entitiesToAdd m) m)\<lparr>entitiesToAdd := []\<rparr>"

definition stage_destroyed :: "heap \<Rightarrow> EntityManager \<Rightarrow> EntityManager" where
  "stage_destroyed h m =
     m\<lparr>entitiesToRemove :=
         entitiesToRemove m @ filter (\<lambda>r. Entity_destroy (h r)) (map snd (entities m))\<rparr>"

definition flush_removals :: "heap \<Rightarrow> EntityManager \<Rightarrow> EntityManager" where
  "flush_removals h m = (fold (remove_staged h) (entitiesToRemove m) m)\<lparr>entitiesToRemove := []\<rparr>"

definition update :: "heap \<Rightarrow> EntityManager \<Rightarrow> EntityManager" where
  "update h m = flush_removals h (stage_destroyed h (flush_additions h m))"

text \<open>
  What the \<^verbatim>\<open>Map\<close> of the primary store guarantees by construction: keys are
  unique, and each entity is stored under the id it had when it was added (no code
  assigns to \<^verbatim>\<open>entity.id\<close> after construction).
\<close>

definition store_keyed :: "heap \<Rightarrow> EntityManager \<Rightarrow> bool" where
  "store_keyed h m =
     (distinct (map fst (entities m)) \<and> list_all (\<lambda>(k, r). Entity_id (h r) = k) (entities m))"

definition clear :: "EntityManager \<Rightarrow> EntityManager" where
  "clear m = new_EntityManager"

definition getEntityCount :: "EntityManager \<Rightarrow> nat" where
  "getEntityCount m = length (entities m)"

section \<open>The game object and its collaborators\<close>

text \<open>
  The UI, the audio assets, the particle effects, the achievement notification and
  \<^verbatim>\<open>localStorage\<close> are collaborators of the simulation core: a call to one of them
  is recorded, with its arguments, at the end of the game's list of calls. The ratio
  passed to \<^verbatim>\<open>updateSprayPower\<close> is recorded as numerator and denominator.
\<close>

datatype call =
    UI_updateScore real
  | UI_updateSprayPower real real
  | Assets_playSound string
  | Effects_createCollectEffect real real string
  | Effects_createSprayEffect real real
  | Effects_createLandingEffect real real
  | showAchievementNotification string string
  | LocalStorage_setItem string "(string \<times> bool) list"

record Achievement =
  Achievement_name :: string
  Achievement_description :: string
  Achievement_icon :: string
  Achievement_unlocked :: bool

record AchievementSystem =
  achievements :: "(string \<times> Achievement) list"
  unlockedAchievements :: "string list"
  prototype_unlocked :: "string list"

record Stats =
  Stats_wallsPainted :: nat
  Stats_coinsCollected :: nat
  Stats_jumpCount :: nat
  Stats_survivalTime :: real

record ChromaticRush =
  game_heap :: heap
  game_entityManager :: EntityManager
  game_achievementsSystem :: AchievementSystem
  game_canvas_height :: real
  game_gameState :: string
  game_score :: real
  game_distance :: real
  game_gameTime :: real
  game_deltaTime :: real
  game_gameSpeed :: real
  game_player :: "ref option"
  game_stats :: Stats
  game_calls :: "call list"

definition emit :: "call \<Rightarrow> ChromaticRush \<Rightarrow> ChromaticRush" where
  "emit c g = g\<lparr>game_calls := game_calls g @ [c]\<rparr>"

definition modify :: "ref \<Rightarrow> (Entity \<Rightarrow> Entity) \<Rightarrow> ChromaticRush \<Rightarrow> ChromaticRush" where
  "modify r f g = g\<lparr>game_heap := (game_heap g)(r := f (game_heap g r))\<rparr>"

definition addScore :: "real \<Rightarrow> ChromaticRush \<Rightarrow> ChromaticRush" where
  "addScore points g =
     emit (UI_updateScore (game_score g + of_int \<lfloor>points * game_gameSpeed g\<rfloor>))
       (g\<lparr>game_score := game_score g + of_int \<lfloor>points * game_gameSpeed g\<rfloor>\<rparr>)"

section \<open>AchievementSystem\<close>

text \<open>
  \<^verbatim>\<open>achievements\<close> is an object literal used as a dictionary from achievement id
  to achievement, and \<^verbatim>\<open>this.achievements[achievementId]\<close> is a property read: it
  finds the registry's own entries first and then the properties every object inherits
  from \<^verbatim>\<open>Object.prototype\<close>. An inherited property is a built-in object (the
  function \<^verbatim>\<open>Object\<close> for \<open>constructor\<close>, \<^verbatim>\<open>Object.prototype\<close> itself for
  \<open>__proto__\<close>, a method otherwise): it has no \<^verbatim>\<open>icon\<close>, its \<^verbatim>\<open>name\<close> is the
  function's name, and \<^verbatim>\<open>achievement.unlocked = true\<close> sets a property on it that
  lasts. \<open>prototype_unlocked\<close> lists the inherited names whose object has got that
  property; once \<^verbatim>\<open>Object.prototype\<close> has it, every built-in object inherits it,
  and the registry inherits a property named \<open>unlocked\<close> itself (the value
  \<^verbatim>\<open>true\<close>, whose own \<^verbatim>\<open>unlocked\<close> reads as true again).
  \<^verbatim>\<open>Object.entries\<close> in \<^verbatim>\<open>saveProgress\<close> sees own entries only.
  \<^verbatim>\<open>unlockedAchievements\<close> is a \<^verbatim>\<open>Set\<close>.
\<close>

definition Object_prototype_names :: "string list" where
  "Object_prototype_names =
     [''constructor'', ''__defineGetter__'', ''__defineSetter__'', ''hasOwnProperty'',
      ''__lookupGetter__'', ''__lookupSetter__'', ''isPrototypeOf'', ''propertyIsEnumerable'',
      ''toString'', ''valueOf'', ''__proto__'', ''toLocaleString'']"

datatype property = OwnProperty Achievement | InheritedProperty string

definition achievements_get :: "AchievementSystem \<Rightarrow> string \<Rightarrow> property option" where
  "achievements_get sys achievementId =
     (case map_of (achievements sys) achievementId of
        Some achievement \<Rightarrow> Some (OwnProperty achievement)
      | None \<Rightarrow>
          if achievementId \<in> set Object_prototype_names
             \<or> (achievementId = ''unlocked'' \<and> ''__proto__'' \<in> set (prototype_unlocked sys))
          then Some (InheritedProperty achievementId) else None)"

fun property_unlocked :: "AchievementSystem \<Rightarrow> property \<Rightarrow> bool" where
  "property_unlocked sys (OwnProperty achievement) = Achievement_unlocked achievement"
| "property_unlocked sys (InheritedProperty n) =
     (n \<in> set (prototype_unlocked sys) \<or> ''__proto__'' \<in> set (prototype_unlocked sys))"

text \<open>
  The two interpolations of the notification text
  \<^verbatim>\<open>`${achievement.icon} ${achievement.name}`\<close>; an absent property prints as
  \<open>undefined\<close>.
\<close>

fun property_icon :: "property \<Rightarrow> string" where
  "property_icon (OwnProperty achievement) = Achievement_icon achievement"
| "property_icon (InheritedProperty n) = ''undefined''"

fun property_name :: "property \<Rightarrow> string" where
  "property_name (OwnProperty achievement) = Achievement_name achievement"
| "property_name (InheritedProperty n) =
     (if n = ''constructor'' then ''Object'' else if n = ''__proto__'' then ''undefined'' else n)"

definition Set_add :: "'a \<Rightarrow> 'a list \<Rightarrow> 'a list" where
  "Set_add v s = (if v \<in> set s then s else s @ [v])"

definition saveProgress :: "ChromaticRush \<Rightarrow> ChromaticRush" where
  "saveProgress g =
     emit (LocalStorage_setItem ''chromaticRush_achievements''
             (map (\<lambda>(ident, achievement). (ident, Achievement_unlocked achievement))
                (achievements (game_achievementsSystem g)))) g"

fun set_unlocked :: "string \<Rightarrow> property \<Rightarrow> AchievementSystem \<Rightarrow> AchievementSystem" where
  "set_unlocked achievementId (OwnProperty achievement) sys =
     sys\<lparr>achievements :=
           AList.update achievementId (achievement\<lparr>Achievement_unlocked := True\<rparr>) (achievements sys)\<rparr>"
| "set_unlocked achievementId (InheritedProperty n) sys =
     sys\<lparr>prototype_unlocked := Set_add n (prototype_unlocked sys)\<rparr>"

definition unlockAchievement :: "string \<Rightarrow> ChromaticRush \<Rightarrow> ChromaticRush" where
  "unlockAchievement achievementId g =
     (case achievements_get (game_achievementsSystem g) achievementId of
        None \<Rightarrow> g
      | Some achievement \<Rightarrow>
          if property_unlocked (game_achievementsSystem g) achievement then g
          else
            let sys = set_unlocked achievementId achievement (game_achievementsSystem g);
                g1 = g\<lparr>game_achievementsSystem :=
                        sys\<lparr>unlockedAchievements := Set_add achievementId (unlockedAchievements sys)\<rparr>\<rparr>;
                g2 = emit (showAchievementNotification (property_icon achievement)
                             (property_name achievement)) g1;
                g3 = saveProgress g2
            in emit (Assets_playSound ''achievement'') g3)"

text \<open>\<^verbatim>\<open>this.achievements[achievementId]?.unlocked\<close>, as a truth value.\<close>

definition is_unlocked :: "ChromaticRush \<Rightarrow> string \<Rightarrow> bool" where
  "is_unlocked g achievementId =
     (case achievements_get (game_achievementsSystem g) achievementId of
        None \<Rightarrow> False
      | Some achievement \<Rightarrow> property_unlocked (game_achievementsSystem g) achievement)"

definition checkAchievement :: "string \<Rightarrow> bool \<Rightarrow> ChromaticRush \<Rightarrow> ChromaticRush" where
  "checkAchievement achievementId condition g =
     (if condition \<and> \<not> is_unlocked g achievementId then unlockAchievement achievementId g else g)"

section \<open>CollisionSystem\<close>

record Rect =
  Rect_x :: real
  Rect_y :: real
  Rect_width :: real
  Rect_height :: real

definition rectIntersects :: "Rect \<Rightarrow> Rect \<Rightarrow> bool" where
  "rectIntersects rectA rectB =
     (Rect_x rectA < Rect_x rectB + Rect_width rectB \<and>
      Rect_x rectA + Rect_width rectA > Rect_x rectB \<and>
      Rect_y rectA < Rect_y rectB + Rect_height rectB \<and>
      Rect_y rectA + Rect_height rectA > Rect_y rectB)"

definition collider_rect :: "Transform \<Rightarrow> Collider \<Rightarrow> Rect" where
  "collider_rect transform collider =
     \<lparr>Rect_x = Transform_x transform + Collider_offsetX collider,
      Rect_y = Transform_y transform + Collider_offsetY collider,
      Rect_width = Collider_width collider,
      Rect_height = Collider_height collider\<rparr>"

definition checkCollision :: "Entity \<Rightarrow> Entity \<Rightarrow> error + bool" where
  "checkCollision entityA entityB =
     (case (getTransform entityA, getCollider entityA, getTransform entityB, getCollider entityB) of
        (Some transformA, Some colliderA, Some transformB, Some colliderB) \<Rightarrow>
          Inr (rectIntersects (collider_rect transformA colliderA) (collider_rect transformB colliderB))
      | _ \<Rightarrow> Inl TypeError)"

definition handlePlayerCollectibleCollision :: "ref \<Rightarrow> ref \<Rightarrow> ChromaticRush \<Rightarrow> error + ChromaticRush" where
  "handlePlayerCollectibleCollision playerRef collectibleRef g =
     (case getCollectible (game_heap g collectibleRef) of
        None \<Rightarrow> Inl TypeError
      | Some collectibleComponent \<Rightarrow>
          if Collectible_collected collectibleComponent then Inr g
          else
            let g1 = modify collectibleRef
                       (writeComponent (CCollectible (collectibleComponent\<lparr>Collectible_collected := True\<rparr>))) g;
                playerTransform = getTransform (game_heap g1 playerRef);
                playerController = getPlayerController (game_heap g1 playerRef);
                g2 = addScore (Collectible_value collectibleComponent) g1;
                g3 =
                  (if Collectible_type collectibleComponent = ''spray_can'' then
                     (case playerController of
                        None \<Rightarrow> g2
                      | Some pc \<Rightarrow>
                          let pc1 = pc\<lparr>PlayerController_sprayPower :=
                                          min (PlayerController_maxSprayPower pc)
                                              (PlayerController_sprayPower pc + 25)\<rparr>
                          in emit (UI_updateSprayPower (PlayerController_sprayPower pc1)
                                     (PlayerController_maxSprayPower pc1))
                               (modify playerRef (writeComponent (CPlayerController pc1)) g2))
                   else if Collectible_type collectibleComponent = ''power_up'' then
                     emit (Assets_playSound ''powerup'')
                       (case getHealth (game_heap g2 playerRef) of
                          None \<Rightarrow> g2
                        | Some playerHealth \<Rightarrow>
                            modify playerRef
                              (writeComponent (CHealth (playerHealth\<lparr>Health_invulnerable := True,
                                                                     Health_invulnerabilityTime := 3\<rparr>))) g2)
                   else emit (Assets_playSound ''collect'') g2)
            in (case playerTransform of
                  None \<Rightarrow> Inl TypeError
                | Some pt \<Rightarrow>
                    Inr (modify collectibleRef (\<lambda>e. e\<lparr>Entity_destroy := True\<rparr>)
                           (emit (Effects_createCollectEffect
                                    (Transform_x pt + Transform_width pt / 2)
                                    (Transform_y pt + Transform_height pt / 2)
                                    (Collectible_type collectibleComponent)) g3))))"

text \<open>
  The two \<^verbatim>\<open>Math.random()\<close> draws that place the spray particles are parameters
  of the handler.
\<close>

definition paint_sprite :: "Sprite \<Rightarrow> Sprite" where
  "paint_sprite sprite =
     (if Sprite_type sprite = ''building1'' then sprite\<lparr>Sprite_frame := ''colored_building1''\<rparr>
      else if Sprite_type sprite = ''building2'' then sprite\<lparr>Sprite_frame := ''colored_building2''\<rparr>
      else sprite)"

text \<open>
  The threshold block of the handler (\<^verbatim>\<open>artComponent.painted = true\<close> up to the
  sprite swap), on the street-art entity whose StreetArt component is \<open>art\<close>.
\<close>

definition paint_completed :: "ref \<Rightarrow> StreetArt \<Rightarrow> ChromaticRush \<Rightarrow> ChromaticRush" where
  "paint_completed streetartRef art g =
     (let g5 = modify streetartRef (writeComponent (CStreetArt (art\<lparr>StreetArt_painted := True\<rparr>))) g;
          g6 = addScore 100 g5;
          g7 = g6\<lparr>game_stats := (game_stats g6)
                  \<lparr>Stats_wallsPainted := Stats_wallsPainted (game_stats g6) + 1\<rparr>\<rparr>;
          g8 = checkAchievement ''first_wall'' (Stats_wallsPainted (game_stats g7) \<ge> 1) g7;
          g9 = checkAchievement ''artist'' (Stats_wallsPainted (game_stats g8) \<ge> 10) g8;
          g10 = emit (Assets_playSound ''achievement'') g9
      in case getSprite (game_heap g10 streetartRef) of
           None \<Rightarrow> g10
         | Some sprite \<Rightarrow> modify streetartRef (writeComponent (CSprite (paint_sprite sprite))) g10)"

text \<open>
  The writes of one spraying tick: paint progress, spray power, and the UI update.
\<close>

definition spray_tick :: "ref \<Rightarrow> ref \<Rightarrow> PlayerController \<Rightarrow> StreetArt \<Rightarrow> ChromaticRush \<Rightarrow> ChromaticRush" where
  "spray_tick playerRef streetartRef pc1 art1 g =
     emit (UI_updateSprayPower (PlayerController_sprayPower pc1) (PlayerController_maxSprayPower pc1))
       (modify playerRef (writeComponent (CPlayerController pc1))
          (modify streetartRef (writeComponent (CStreetArt art1)) g))"

definition handlePlayerStreetArtCollision ::
    "real \<Rightarrow> real \<Rightarrow> ref \<Rightarrow> ref \<Rightarrow> ChromaticRush \<Rightarrow> error + ChromaticRush" where
  "handlePlayerStreetArtCollision random1 random2 playerRef streetartRef g =
     (case getPlayerController (game_heap g playerRef) of
        None \<Rightarrow> Inr g
      | Some playerController \<Rightarrow>
          if \<not> Actions_spray (PlayerController_actions playerController) then Inr g
          else
            (case getStreetArt (game_heap g streetartRef) of
               None \<Rightarrow> Inl TypeError
             | Some artComponent \<Rightarrow>
                 if \<not> (\<not> StreetArt_painted artComponent \<and> PlayerController_sprayPower playerController > 0)
                 then Inr g
                 else
                   let sprayRate = 50;
                       deltaSpray = sprayRate * game_deltaTime g;
                       art1 = artComponent\<lparr>StreetArt_paintProgress :=
                                             StreetArt_paintProgress artComponent + deltaSpray\<rparr>;
                       pc1 = playerController\<lparr>PlayerController_sprayPower :=
                                max 0 (PlayerController_sprayPower playerController - deltaSpray / 2)\<rparr>;
                       g3 = spray_tick playerRef streetartRef pc1 art1 g
                   in (case getTransform (game_heap g3 streetartRef) of
                         None \<Rightarrow> Inl TypeError
                       | Some transform \<Rightarrow>
                           let g4 = emit (Effects_createSprayEffect
                                            (Transform_x transform + random1 * Transform_width transform)
                                            (Transform_y transform + random2 * Transform_height transform)) g3
                           in if StreetArt_paintProgress art1 \<ge> StreetArt_requiredPaint art1
                                 \<and> \<not> StreetArt_painted art1
                              then Inr (paint_completed streetartRef art1 g4)
                              else Inr g4)))"

section \<open>PhysicsSystem\<close>

text \<open>
  The body of the loop of \<^verbatim>\<open>PhysicsSystem.update\<close>, on the three components of one
  entity, one definition for each commented step of the source (apply gravity, apply
  friction, clamp velocities, update position, ground collision); it returns the
  components after the step and the collaborator calls made.
  \<^verbatim>\<open>Math.pow\<close> is the parameter \<open>pow\<close>, \<open>groundY\<close> is
  \<^verbatim>\<open>canvas.height - 150\<close> and \<open>isPlayer\<close> is \<^verbatim>\<open>entity.hasTag('player')\<close>.
  The y axis points down: gravity adds to \<open>vy\<close>, a jump sets \<open>vy\<close> to
  \<^verbatim>\<open>-jumpForce\<close>, and the ground line is crossed when \<open>y + height\<close> grows beyond
  \<open>groundY\<close>.
\<close>

definition PhysicsSystem_gravity :: real where
  "PhysicsSystem_gravity = 800"

definition apply_gravity :: "real \<Rightarrow> Physics \<Rightarrow> Velocity \<Rightarrow> Velocity" where
  "apply_gravity deltaTime physics velocity =
     (if \<not> Physics_static physics
      then velocity\<lparr>Velocity_vy := Velocity_vy velocity
             + (if Physics_grounded physics then 0 else PhysicsSystem_gravity * deltaTime)\<rparr>
      else velocity)"

definition apply_friction :: "(real \<Rightarrow> real \<Rightarrow> real) \<Rightarrow> real \<Rightarrow> Physics \<Rightarrow> Velocity \<Rightarrow> Velocity" where
  "apply_friction pow deltaTime physics velocity =
     (if Physics_onGround physics
      then velocity\<lparr>Velocity_vx := Velocity_vx velocity * pow (Velocity_friction velocity) deltaTime\<rparr>
      else velocity)"

definition clamp_velocities :: "Velocity \<Rightarrow> Velocity" where
  "clamp_velocities velocity =
     velocity\<lparr>Velocity_vx := max (- Velocity_maxVx velocity) (min (Velocity_maxVx velocity) (Velocity_vx velocity)),
              Velocity_vy := max (- Velocity_maxVy velocity) (min (Velocity_maxVy velocity) (Velocity_vy velocity))\<rparr>"

definition update_position :: "real \<Rightarrow> Velocity \<Rightarrow> Transform \<Rightarrow> Transform" where
  "update_position deltaTime velocity transform =
     transform\<lparr>Transform_x := Transform_x transform + Velocity_vx velocity * deltaTime,
               Transform_y := Transform_y transform + Velocity_vy velocity * deltaTime\<rparr>"

definition ground_collision ::
    "real \<Rightarrow> bool \<Rightarrow> Transform \<Rightarrow> Velocity \<Rightarrow> Physics \<Rightarrow> (Transform \<times> Velocity \<times> Physics) \<times> call list" where
  "ground_collision groundY isPlayer transform velocity physics =
     (if Transform_y transform + Transform_height transform > groundY then
        (let t1 = transform\<lparr>Transform_y := groundY - Transform_height transform\<rparr>
         in if Velocity_vy velocity > 0 then
              (let v1 = velocity\<lparr>Velocity_vy := - Velocity_vy velocity * Physics_bounce physics\<rparr>;
                   p1 = physics\<lparr>Physics_onGround := True, Physics_grounded := True,
                                Physics_groundY := groundY\<rparr>
               in ((t1, v1, p1),
                   if isPlayer \<and> \<bar>Velocity_vy v1\<bar> > 100
                   then [Effects_createLandingEffect (Transform_x t1 + Transform_width t1 / 2) groundY,
                         Assets_playSound ''land'']
                   else []))
            else ((t1, velocity, physics), []))
      else
        (let p1 = physics\<lparr>Physics_onGround := False\<rparr>
         in ((transform, velocity,
              if Physics_grounded p1 \<and> Velocity_vy velocity > 50
              then p1\<lparr>Physics_grounded := False\<rparr> else p1), [])))"

definition physics_body ::
    "(real \<Rightarrow> real \<Rightarrow> real) \<Rightarrow> real \<Rightarrow> real \<Rightarrow> bool \<Rightarrow> Transform \<Rightarrow> Velocity \<Rightarrow> Physics
       \<Rightarrow> (Transform \<times> Velocity \<times> Physics) \<times> call list" where
  "physics_body pow deltaTime groundY isPlayer transform velocity physics =
     (let t1 = transform\<lparr>Transform_previousX := Transform_x transform,
                         Transform_previousY := Transform_y transform\<rparr>;
          v1 = clamp_velocities (apply_friction pow deltaTime physics (apply_gravity deltaTime physics velocity));
          t2 = update_position deltaTime v1 t1
      in ground_collision groundY isPlayer t2 v1 physics)"

definition physics_entity :: "(real \<Rightarrow> real \<Rightarrow> real) \<Rightarrow> real \<Rightarrow> ref \<Rightarrow> ChromaticRush \<Rightarrow> ChromaticRush" where
  "physics_entity pow deltaTime r g =
     (case (getTransform (game_heap g r), getVelocity (game_heap g r), getPhysics (game_heap g r)) of
        (Some transform, Some velocity, Some physics) \<Rightarrow>
          (case physics_body pow deltaTime (game_canvas_height g - 150)
                  (hasTag (game_heap g r) ''player'') transform velocity physics of
             ((t', v', p'), cs) \<Rightarrow>
               (modify r (writeComponent (CPhysics p') \<circ> writeComponent (CVelocity v')
                            \<circ> writeComponent (CTransform t')) g)
                 \<lparr>game_calls := game_calls g @ cs\<rparr>)
      | _ \<Rightarrow> g)"

definition PhysicsSystem_update ::
    "(real \<Rightarrow> real \<Rightarrow> real) \<Rightarrow> real \<Rightarrow> ChromaticRush \<Rightarrow> error + ChromaticRush" where
  "PhysicsSystem_update pow deltaTime g =
     (case getEntitiesWith (game_heap g) (game_entityManager g)
             [ByString ''Transform'', ByString ''Velocity'', ByString ''Physics''] of
        Inl err \<Rightarrow> Inl err
      | Inr physicsEntities \<Rightarrow> Inr (fold (physics_entity pow deltaTime) physicsEntities g))"

section \<open>AISystem: the guard behaviour\<close>

text \<open>
  \<^verbatim>\<open>a || d\<close> on an optional number: \<^verbatim>\<open>undefined\<close> and \<open>0\<close> are falsy and
  give the default.
\<close>

definition or_default :: "real option \<Rightarrow> real \<Rightarrow> real" where
  "or_default a d = (case a of None \<Rightarrow> d | Some v \<Rightarrow> if v = 0 then d else v)"

text \<open>
  \<^verbatim>\<open>updateGuardAI(entity, ai, transform, velocity, deltaTime)\<close>: \<open>velocity\<close> is
  \<open>None\<close> when the entity has no \<^verbatim>\<open>Velocity\<close>; the result is the controller and
  the velocity after the call.
\<close>

definition updateGuardAI ::
    "ChromaticRush \<Rightarrow> AIController \<Rightarrow> Transform \<Rightarrow> Velocity option
       \<Rightarrow> error + AIController \<times> Velocity option" where
  "updateGuardAI g ai transform velocity =
     (let guardRange = or_default (AIConfig_range (AIController_config ai)) 150;
          alertRange = or_default (AIConfig_alertRange (AIController_config ai)) 100
      in case game_player g of
           None \<Rightarrow> Inr (ai, velocity)
         | Some playerRef \<Rightarrow>
             (case getTransform (game_heap g playerRef) of
                None \<Rightarrow> Inl TypeError
              | Some playerTransform \<Rightarrow>
                  let distance = \<bar>Transform_x transform - Transform_x playerTransform\<bar>
                  in if AIController_state ai = ''idle'' then
                       Inr (if distance < alertRange
                            then ai\<lparr>AIController_state := ''alert'', AIController_timer := 0\<rparr>
                            else ai, velocity)
                     else if AIController_state ai = ''alert'' then
                       Inr (if AIController_timer ai > 1
                            then ai\<lparr>AIController_state :=
                                      (if distance < guardRange then ''pursuing'' else ''idle''),
                                    AIController_timer := 0\<rparr>
                            else ai, velocity)
                     else if AIController_state ai = ''pursuing'' then
                       (case velocity of
                          None \<Rightarrow> Inl TypeError
                        | Some v \<Rightarrow>
                            let pursuitSpeed = or_default (AIConfig_speed (AIController_config ai)) 120;
                                direction = (if Transform_x transform < Transform_x playerTransform
                                             then 1 else - 1);
                                v1 = v\<lparr>Velocity_vx := pursuitSpeed * direction\<rparr>
                            in Inr (if distance > guardRange * 1.5
                                    then ai\<lparr>AIController_state := ''returning'',
                                            AIController_target :=
                                              Some \<lparr>Point_x = or_default
                                                       (AIConfig_startX (AIController_config ai))
                                                       (Transform_x transform),
                                                    Point_y = Transform_y transform\<rparr>\<rparr>
                                    else ai, Some v1))
                     else if AIController_state ai = ''returning'' then
                       (case AIController_target ai of
                          None \<Rightarrow> Inr (ai, velocity)
                        | Some target \<Rightarrow>
                            (case velocity of
                               None \<Rightarrow> Inl TypeError
                             | Some v \<Rightarrow>
                                 let returnSpeed = or_default (AIConfig_speed (AIController_config ai)) 80;
                                     directionToStart = (if Transform_x transform < Point_x target
                                                         then 1 else - 1);
                                     v1 = v\<lparr>Velocity_vx := returnSpeed * directionToStart\<rparr>
                                 in if \<bar>Transform_x transform - Point_x target\<bar> < 10
                                    then Inr (ai\<lparr>AIController_state := ''idle'',
                                                AIController_target := None\<rparr>,
                                              Some (v1\<lparr>Velocity_vx := 0\<rparr>))
                                    else Inr (ai, Some v1)))
                     else Inr (ai, velocity)))"

section \<open>Example states\<close>

text \<open>
  Concrete components, entities and a game, built with the constructors' defaults and
  the world generator's values, on which the theorems below are instantiated.
\<close>

definition demo_transform :: "real \<Rightarrow> real \<Rightarrow> Transform" where
  "demo_transform px py =
     \<lparr>Transform_x = px, Transform_y = py, Transform_width = 32, Transform_height = 32,
      Transform_rotation = 0, Transform_scale = 1, Transform_previousX = px,
      Transform_previousY = py\<rparr>"

definition demo_velocity :: "real \<Rightarrow> real \<Rightarrow> Velocity" where
  "demo_velocity vx vy =
     \<lparr>Velocity_vx = vx, Velocity_vy = vy, Velocity_maxVx = 500, Velocity_maxVy = 800,
      Velocity_friction = 0.85, Velocity_gravity = 800\<rparr>"

definition demo_physics :: "bool \<Rightarrow> Physics" where
  "demo_physics grounded =
     \<lparr>Physics_static = False, Physics_bounce = 0, Physics_mass = 1, Physics_grounded = grounded,
      Physics_onGround = False, Physics_groundY = 0\<rparr>"

definition demo_collider :: Collider where
  "demo_collider =
     \<lparr>Collider_width = 28, Collider_height = 28, Collider_offsetX = 2, Collider_offsetY = 2,
      Collider_isTrigger = False, Collider_layer = ''default'', Collider_tags = []\<rparr>"

definition demo_sprite :: "string \<Rightarrow> string \<Rightarrow> Sprite" where
  "demo_sprite ty frame =
     \<lparr>Sprite_type = ty, Sprite_frame = frame, Sprite_layer = 1, Sprite_visible = True,
      Sprite_opacity = 1, Sprite_flipX = False, Sprite_flipY = False, Sprite_tint = None\<rparr>"

definition demo_controller :: "real \<Rightarrow> bool \<Rightarrow> PlayerController" where
  "demo_controller p spray =
     \<lparr>PlayerController_jumpForce = 400, PlayerController_moveSpeed = 250,
      PlayerController_isJumping = False, PlayerController_isDucking = False,
      PlayerController_isSpraying = False, PlayerController_sprayPower = p,
      PlayerController_maxSprayPower = 100, PlayerController_sprayRegenRate = 20,
      PlayerController_actions = \<lparr>Actions_jump = False, Actions_duck = False, Actions_spray = spray\<rparr>\<rparr>"

definition demo_collectible :: "string \<Rightarrow> real \<Rightarrow> Collectible" where
  "demo_collectible ty v =
     \<lparr>Collectible_type = ty, Collectible_value = v, Collectible_collected = False,
      Collectible_floatSpeed = 2, Collectible_floatAmount = 5\<rparr>"

definition demo_art :: "real \<Rightarrow> StreetArt" where
  "demo_art progress =
     \<lparr>StreetArt_painted = False, StreetArt_paintProgress = progress, StreetArt_requiredPaint = 100,
      StreetArt_artStyle = ''graffiti'', StreetArt_colors = [], StreetArt_baseColor = ''#666666''\<rparr>"

definition demo_guard :: "AIConfig \<Rightarrow> string \<Rightarrow> Point option \<Rightarrow> AIController" where
  "demo_guard cfg st tg =
     \<lparr>AIController_type = ''guard'', AIController_config = cfg, AIController_state = st,
      AIController_timer = 0, AIController_target = tg, AIController_pathIndex = 0,
      AIController_direction = None\<rparr>"

definition demo_config :: "real option \<Rightarrow> AIConfig" where
  "demo_config startX =
     \<lparr>AIConfig_speed = Some 80, AIConfig_range = Some 150, AIConfig_alertRange = None,
      AIConfig_startX = startX, AIConfig_idleTime = None\<rparr>"

definition demo_box :: "string \<Rightarrow> real \<Rightarrow> real \<Rightarrow> Entity" where
  "demo_box ident px py =
     addComponent (CCollider demo_collider)
       (addComponent (CTransform (demo_transform px py)) (new_Entity ident))"

definition demo_player :: Entity where
  "demo_player =
     addTag ''player''
       (addComponent (CPlayerController (demo_controller 50 True))
          (addComponent (CHealth (new_Health 3))
             (addComponent (CPhysics (demo_physics True))
                (addComponent (CVelocity (demo_velocity 0 0)) (demo_box ''_player'' 100 350)))))"

definition demo_spray_can :: Entity where
  "demo_spray_can =
     addTag ''collectible''
       (addComponent (CCollectible (demo_collectible ''spray_can'' 25))
          (addComponent (CSprite (demo_sprite ''collectibles'' ''spray_can''))
             (demo_box ''_can'' 110 380)))"

definition demo_wall :: Entity where
  "demo_wall =
     addTag ''streetart''
       (addTag ''building''
          (addComponent (CStreetArt (demo_art 98))
             (addComponent (CSprite (demo_sprite ''background'' ''building1''))
                (demo_box ''_wall'' 90 100))))"

definition demo_heap :: heap where
  "demo_heap r =
     (if r = 0 then demo_player else if r = 5 then demo_spray_can
      else if r = 2 then demo_wall else new_Entity ''_none'')"

definition demo_achievements :: AchievementSystem where
  "demo_achievements =
     \<lparr>achievements =
        [(''first_wall'', \<lparr>Achievement_name = ''street artist'', Achievement_description = ''paint the first wall'',
                          Achievement_icon = ''palette'', Achievement_unlocked = False\<rparr>),
         (''artist'', \<lparr>Achievement_name = ''professional artist'', Achievement_description = ''paint 10 walls'',
                      Achievement_icon = ''trophy'', Achievement_unlocked = False\<rparr>)],
      unlockedAchievements = [], prototype_unlocked = []\<rparr>"

definition demo_game :: "real \<Rightarrow> ChromaticRush" where
  "demo_game speed =
     \<lparr>game_heap = demo_heap,
      game_entityManager =
        \<lparr>entities = [(''_player'', 0), (''_can'', 5), (''_wall'', 2)],
         entitiesByTag = [(''player'', [0]), (''collectible'', [5]), (''building'', [2]),
                          (''streetart'', [2])],
         entitiesToAdd = [], entitiesToRemove = []\<rparr>,
      game_achievementsSystem = demo_achievements,
      game_canvas_height = 600,
      game_gameState = ''playing'',
      game_score = 0,
      game_distance = 0,
      game_gameTime = 0,
      game_deltaTime = 1 / 10,
      game_gameSpeed = speed,
      game_player = Some 0,
      game_stats = \<lparr>Stats_wallsPainted = 0, Stats_coinsCollected = 0, Stats_jumpCount = 0,
                     Stats_survivalTime = 0\<rparr>,
      game_calls = []\<rparr>"

text \<open>
  A heap for the flush: the spray can (reference 5) has been collected and marked
  \<open>destroy\<close>; reference 3 is a new obstacle already marked \<open>destroy\<close>; reference 4
  is a new obstacle.
\<close>

definition demo_obstacle :: "string \<Rightarrow> Entity" where
  "demo_obstacle ident = addTag ''obstacle'' (demo_box ident 500 380)"

definition demo_flush_heap :: heap where
  "demo_flush_heap =
     demo_heap(5 := demo_spray_can\<lparr>Entity_destroy := True\<rparr>,
               3 := (demo_obstacle ''_gone'')\<lparr>Entity_destroy := True\<rparr>,
               4 := demo_obstacle ''_dup'')"

definition demo_manager :: EntityManager where
  "demo_manager = game_entityManager (demo_game 1)"

text \<open>
  The same heap with reference 6, a new obstacle marked \<open>destroy\<close> that was constructed
  with the id of the stored wall.
\<close>

definition demo_evict_heap :: heap where
  "demo_evict_heap = demo_flush_heap(6 := (demo_obstacle ''_wall'')\<lparr>Entity_destroy := True\<rparr>)"

section \<open>Health: properties\<close>

text \<open>
  C3, as stated, quantifies over every damage amount. A negative amount defeats the
  one-sided clamps: \<^verbatim>\<open>takeDamage(-1)\<close> on a fresh \<^verbatim>\<open>Health(1)\<close> leaves
  \<open>current = 2 > max\<close>, and \<^verbatim>\<open>heal(-2)\<close> on it leaves \<open>current = -1 < 0\<close>.
\<close>

theorem C3_negative_amount_counterexample:
  "health_in_range (new_Health 1)
   \<and> \<not> health_in_range (snd (takeDamage (new_Health 1) (- 1)))
   \<and> \<not> health_in_range (heal (new_Health 1) (- 2))"
  by (simp add: health_in_range_def new_Health_def takeDamage_def heal_def)

text \<open>
  C3 (amended): while \<open>invulnerable\<close> is true, \<^verbatim>\<open>takeDamage\<close> returns false and
  leaves the component unchanged, for every amount; and for every non-negative amount,
  \<^verbatim>\<open>takeDamage\<close> and \<^verbatim>\<open>heal\<close> keep \<open>current\<close> within \<open>[0, max]\<close> when it
  was there before the call.
\<close>

theorem C3_health_clamped:
  "(Health_invulnerable h \<longrightarrow> takeDamage h amount = (False, h))
   \<and> (0 \<le> amount \<and> health_in_range h \<longrightarrow>
        health_in_range (snd (takeDamage h amount)) \<and> health_in_range (heal h amount)
        \<and> Health_max (snd (takeDamage h amount)) = Health_max h
        \<and> Health_max (heal h amount) = Health_max h)"
  by (auto simp: takeDamage_def heal_def health_in_range_def)

theorem C3_health_clamped_witness:
  "takeDamage ((new_Health 3)\<lparr>Health_invulnerable := True\<rparr>) 1
     = (False, (new_Health 3)\<lparr>Health_invulnerable := True\<rparr>)
   \<and> Health_current (snd (takeDamage (new_Health 3) 5)) = 0
   \<and> Health_current (heal (snd (takeDamage (new_Health 3) 1)) 7) = 3
   \<and> health_in_range (snd (takeDamage (new_Health 3) 5))
   \<and> health_in_range (heal (snd (takeDamage (new_Health 3) 1)) 7)"
  using C3_health_clamped [of "(new_Health 3)\<lparr>Health_invulnerable := True\<rparr>" 1]
    C3_health_clamped [of "new_Health 3" 5]
    C3_health_clamped [of "snd (takeDamage (new_Health 3) 1)" 7]
  by (simp add: health_in_range_def new_Health_def takeDamage_def heal_def)

section \<open>Facts about the example states\<close>

lemma demo_components:
  "getTransform (demo_box i px py) = Some (demo_transform px py)"
  "getCollider (demo_box i px py) = Some demo_collider"
  "getTransform demo_player = Some (demo_transform 100 350)"
  "getPlayerController demo_player = Some (demo_controller 50 True)"
  "getCollectible demo_spray_can = Some (demo_collectible ''spray_can'' 25)"
  "getStreetArt demo_wall = Some (demo_art 98)"
  "getTransform demo_wall = Some (demo_transform 90 100)"
  "getSprite demo_wall = Some (demo_sprite ''background'' ''building1'')"
  by (simp_all add: demo_box_def demo_player_def demo_spray_can_def demo_wall_def
        getTransform_def getCollider_def getPlayerController_def getCollectible_def
        getStreetArt_def getSprite_def getComponent_def components_get_def addComponent_def
        addTag_def new_Entity_def)

section \<open>PhysicsSystem: leaving the ground\<close>

lemma velocity_after_forces:
  "Velocity_maxVy (apply_friction pow deltaTime physics (apply_gravity deltaTime physics velocity)) = Velocity_maxVy velocity"
  "Physics_grounded physics \<Longrightarrow>
     Velocity_vy (apply_friction pow deltaTime physics (apply_gravity deltaTime physics velocity)) = Velocity_vy velocity"
  by (simp_all add: apply_friction_def apply_gravity_def)

lemma clamp_velocities_vy:
  "Velocity_vy (clamp_velocities v) = max (- Velocity_maxVy v) (min (Velocity_maxVy v) (Velocity_vy v))"
  by (simp add: clamp_velocities_def)

lemma ground_collision_airborne:
  assumes "\<not> Transform_y t + Transform_height t > groundY"
  shows "ground_collision groundY isPlayer t v p =
           ((t, v, if Physics_grounded p \<and> Velocity_vy v > 50
                   then p\<lparr>Physics_onGround := False, Physics_grounded := False\<rparr>
                   else p\<lparr>Physics_onGround := False\<rparr>), [])"
  using assms by (simp add: ground_collision_def Let_def)

text \<open>
  C6, as stated, says that a grounded entity above the ground line loses
  \<open>grounded\<close> only when it moves upward faster than 50 units/s. In the code's
  coordinates upward is negative \<open>vy\<close>, and the test is \<^verbatim>\<open>velocity.vy > 50\<close>: an
  entity moving down at 100 units/s (its \<open>y\<close> grows from 100 to 110, towards the
  ground line at 450) loses \<open>grounded\<close>, and one moving up at 400 units/s (its
  \<open>y\<close> falls from 100 to 60) keeps it.
\<close>

theorem C6_upward_counterexample:
  "Physics_grounded (demo_physics True)
   \<and> \<not> Physics_grounded (snd (snd (fst (physics_body (powr) (1 / 10) 450 False
          (demo_transform 0 100) (demo_velocity 0 100) (demo_physics True)))))
   \<and> Transform_y (fst (fst (physics_body (powr) (1 / 10) 450 False
          (demo_transform 0 100) (demo_velocity 0 100) (demo_physics True)))) = 110
   \<and> Physics_grounded (snd (snd (fst (physics_body (powr) (1 / 10) 450 False
          (demo_transform 0 100) (demo_velocity 0 (- 400)) (demo_physics True)))))
   \<and> Transform_y (fst (fst (physics_body (powr) (1 / 10) 450 False
          (demo_transform 0 100) (demo_velocity 0 (- 400)) (demo_physics True)))) = 60"
  by (simp add: physics_body_def ground_collision_def update_position_def clamp_velocities_def
        apply_friction_def apply_gravity_def demo_transform_def demo_velocity_def
        demo_physics_def Let_def)

text \<open>
  C6 (amended): in the physics step of a grounded entity that does not cross the ground
  line, gravity is not applied, so the vertical velocity used is \<open>vy\<close> clamped to
  \<open>[-maxVy, maxVy]\<close>; \<open>y\<close> changes by that velocity times the frame delta (positive
  \<open>vy\<close> is downward, towards the ground line); and \<open>grounded\<close> is cleared exactly
  when that velocity is greater than 50, otherwise it stays true.
\<close>

theorem C6_grounded_cleared_iff:
  assumes "Physics_grounded physics"
    and "\<not> Transform_y transform
            + max (- Velocity_maxVy velocity) (min (Velocity_maxVy velocity) (Velocity_vy velocity))
              * deltaTime
            + Transform_height transform > groundY"
  shows "Velocity_vy (fst (snd (fst (physics_body pow deltaTime groundY isPlayer transform velocity physics))))
           = max (- Velocity_maxVy velocity) (min (Velocity_maxVy velocity) (Velocity_vy velocity))
         \<and> Transform_y (fst (fst (physics_body pow deltaTime groundY isPlayer transform velocity physics)))
           = Transform_y transform
             + max (- Velocity_maxVy velocity) (min (Velocity_maxVy velocity) (Velocity_vy velocity))
               * deltaTime
         \<and> (Physics_grounded (snd (snd (fst (physics_body pow deltaTime groundY isPlayer transform velocity physics))))
             \<longleftrightarrow> \<not> max (- Velocity_maxVy velocity) (min (Velocity_maxVy velocity) (Velocity_vy velocity)) > 50)"
proof -
  define v1 where
    "v1 = clamp_velocities (apply_friction pow deltaTime physics (apply_gravity deltaTime physics velocity))"
  define t2 where
    "t2 = update_position deltaTime v1
            (transform\<lparr>Transform_previousX := Transform_x transform,
                       Transform_previousY := Transform_y transform\<rparr>)"
  have vy: "Velocity_vy v1
              = max (- Velocity_maxVy velocity) (min (Velocity_maxVy velocity) (Velocity_vy velocity))"
    using assms(1) by (simp add: v1_def clamp_velocities_vy velocity_after_forces)
  have y: "Transform_y t2 = Transform_y transform + Velocity_vy v1 * deltaTime"
    and h: "Transform_height t2 = Transform_height transform"
    by (simp_all add: t2_def update_position_def)
  have air: "\<not> Transform_y t2 + Transform_height t2 > groundY"
    unfolding y h vy by (rule assms(2))
  have "physics_body pow deltaTime groundY isPlayer transform velocity physics
          = ground_collision groundY isPlayer t2 v1 physics"
    by (simp add: physics_body_def Let_def v1_def t2_def)
  then have body: "physics_body pow deltaTime groundY isPlayer transform velocity physics
          = ((t2, v1, if Physics_grounded physics \<and> Velocity_vy v1 > 50
                   then physics\<lparr>Physics_onGround := False, Physics_grounded := False\<rparr>
                   else physics\<lparr>Physics_onGround := False\<rparr>), [])"
    by (simp only: ground_collision_airborne [OF air])
  show ?thesis
    using assms(1) by (simp add: body y vy)
qed

theorem C6_grounded_cleared_iff_witness:
  "\<not> Physics_grounded (snd (snd (fst (physics_body (powr) (1 / 10) 450 True
          (demo_transform 0 100) (demo_velocity 0 60) (demo_physics True)))))
   \<and> Physics_grounded (snd (snd (fst (physics_body (powr) (1 / 10) 450 True
          (demo_transform 0 100) (demo_velocity 0 50) (demo_physics True)))))
   \<and> Transform_y (fst (fst (physics_body (powr) (1 / 10) 450 True
          (demo_transform 0 100) (demo_velocity 0 60) (demo_physics True)))) = 106"
  using
    C6_grounded_cleared_iff [where physics = "demo_physics True" and transform = "demo_transform 0 100"
      and velocity = "demo_velocity 0 60" and deltaTime = "1 / 10" and groundY = 450
      and pow = "(powr)" and isPlayer = True]
    C6_grounded_cleared_iff [where physics = "demo_physics True" and transform = "demo_transform 0 100"
      and velocity = "demo_velocity 0 50" and deltaTime = "1 / 10" and groundY = 450
      and pow = "(powr)" and isPlayer = True]
  by (simp add: demo_transform_def demo_velocity_def demo_physics_def)

section \<open>CollisionSystem: the collision predicate\<close>

lemma rectIntersects_common_point:
  assumes "0 < Rect_width a" and "0 < Rect_height a" and "0 < Rect_width b" and "0 < Rect_height b"
  shows "rectIntersects a b \<longleftrightarrow>
           (\<exists>px py. Rect_x a < px \<and> px < Rect_x a + Rect_width a
                  \<and> Rect_y a < py \<and> py < Rect_y a + Rect_height a
                  \<and> Rect_x b < px \<and> px < Rect_x b + Rect_width b
                  \<and> Rect_y b < py \<and> py < Rect_y b + Rect_height b)"
    (is "_ \<longleftrightarrow> ?common")
proof
  assume r: "rectIntersects a b"
  define px where
    "px = (max (Rect_x a) (Rect_x b) + min (Rect_x a + Rect_width a) (Rect_x b + Rect_width b)) / 2"
  define py where
    "py = (max (Rect_y a) (Rect_y b) + min (Rect_y a + Rect_height a) (Rect_y b + Rect_height b)) / 2"
  have x: "max (Rect_x a) (Rect_x b) < min (Rect_x a + Rect_width a) (Rect_x b + Rect_width b)"
    using r assms by (auto simp: rectIntersects_def)
  have y: "max (Rect_y a) (Rect_y b) < min (Rect_y a + Rect_height a) (Rect_y b + Rect_height b)"
    using r assms by (auto simp: rectIntersects_def)
  have "Rect_x a < px \<and> px < Rect_x a + Rect_width a \<and> Rect_x b < px \<and> px < Rect_x b + Rect_width b"
    using x unfolding px_def by (auto simp: max_def min_def split: if_splits)
  moreover have "Rect_y a < py \<and> py < Rect_y a + Rect_height a
                 \<and> Rect_y b < py \<and> py < Rect_y b + Rect_height b"
    using y unfolding py_def by (auto simp: max_def min_def split: if_splits)
  ultimately show ?common by blast
next
  assume ?common
  then show "rectIntersects a b" by (auto simp: rectIntersects_def)
qed

text \<open>
  C7: for two entities that have a Transform and a Collider, \<^verbatim>\<open>checkCollision\<close>
  returns true exactly when the boxes at \<open>(x + offsetX, y + offsetY)\<close> of size
  \<open>(width, height)\<close> overlap with strict inequality on all four edges; boxes that
  share a boundary coordinate on any edge do not collide.
\<close>

theorem C7_checkCollision_strict_overlap:
  assumes "getTransform entityA = Some tA" and "getCollider entityA = Some cA"
    and "getTransform entityB = Some tB" and "getCollider entityB = Some cB"
  shows "checkCollision entityA entityB =
           Inr (Transform_x tA + Collider_offsetX cA
                  < Transform_x tB + Collider_offsetX cB + Collider_width cB
                \<and> Transform_x tA + Collider_offsetX cA + Collider_width cA
                  > Transform_x tB + Collider_offsetX cB
                \<and> Transform_y tA + Collider_offsetY cA
                  < Transform_y tB + Collider_offsetY cB + Collider_height cB
                \<and> Transform_y tA + Collider_offsetY cA + Collider_height cA
                  > Transform_y tB + Collider_offsetY cB)
         \<and> (Transform_x tA + Collider_offsetX cA + Collider_width cA = Transform_x tB + Collider_offsetX cB
              \<or> Transform_x tB + Collider_offsetX cB + Collider_width cB = Transform_x tA + Collider_offsetX cA
              \<or> Transform_y tA + Collider_offsetY cA + Collider_height cA = Transform_y tB + Collider_offsetY cB
              \<or> Transform_y tB + Collider_offsetY cB + Collider_height cB = Transform_y tA + Collider_offsetY cA
             \<longrightarrow> checkCollision entityA entityB = Inr False)"
  using assms by (auto simp: checkCollision_def rectIntersects_def collider_rect_def)

theorem C7_checkCollision_strict_overlap_witness:
  "checkCollision (demo_box ''_a'' 0 0) (demo_box ''_b'' 27 0) = Inr True
   \<and> checkCollision (demo_box ''_a'' 0 0) (demo_box ''_b'' 28 0) = Inr False
   \<and> checkCollision (demo_box ''_a'' 0 0) (demo_box ''_b'' 0 28) = Inr False"
  using
    C7_checkCollision_strict_overlap [OF demo_components(1) demo_components(2)
      demo_components(1) demo_components(2), of "''_a''" 0 0 "''_b''" 27 0]
    C7_checkCollision_strict_overlap [OF demo_components(1) demo_components(2)
      demo_components(1) demo_components(2), of "''_a''" 0 0 "''_b''" 28 0]
    C7_checkCollision_strict_overlap [OF demo_components(1) demo_components(2)
      demo_components(1) demo_components(2), of "''_a''" 0 0 "''_b''" 0 28]
  by (simp add: demo_transform_def demo_collider_def)

section \<open>AchievementSystem: unlocking once\<close>













section \<open>AISystem: the guard returns\<close>

text \<open>
  C9, as stated, says the return target is the entity's spawn point. The code takes
  \<^verbatim>\<open>ai.config.startX || transform.x\<close>: a guard configured with \<open>startX = 0\<close>
  that has pursued to \<open>x = 500\<close> gets the target \<open>(500, 200)\<close>, its current
  position, and so does a guard whose configuration has no \<open>startX\<close>.
\<close>

theorem C9_spawn_point_counterexample:
  "AIConfig_startX (demo_config (Some 0)) = Some 0
   \<and> updateGuardAI (demo_game 1) (demo_guard (demo_config (Some 0)) ''pursuing'' None)
        (demo_transform 500 200) (Some (demo_velocity 0 0))
      = Inr (demo_guard (demo_config (Some 0)) ''returning'' (Some \<lparr>Point_x = 500, Point_y = 200\<rparr>),
             Some (demo_velocity (- 80) 0))
   \<and> updateGuardAI (demo_game 1) (demo_guard (demo_config None) ''pursuing'' None)
        (demo_transform 500 200) (Some (demo_velocity 0 0))
      = Inr (demo_guard (demo_config None) ''returning'' (Some \<lparr>Point_x = 500, Point_y = 200\<rparr>),
             Some (demo_velocity (- 80) 0))"
  by (simp add: updateGuardAI_def demo_components demo_game_def demo_heap_def demo_guard_def
        demo_config_def demo_transform_def demo_velocity_def or_default_def Let_def)

text \<open>
  C9 (amended): for a guard with a Velocity, while the game has a player with a
  Transform: in the pursuing state the horizontal velocity is set towards the player,
  and when the horizontal distance to the player exceeds 1.5 times the guard radius the
  state becomes returning with the return target \<open>(startX, y)\<close>, where \<open>startX\<close> is
  the configured start x when it is present and not 0 and the entity's current x
  otherwise, and \<open>y\<close> is the entity's current y. In the returning state with a target,
  the guard becomes idle exactly when it is within 10 units of the target's x (strictly),
  clearing the target and setting the horizontal velocity to 0; otherwise it stays
  returning with its horizontal velocity directed at the target.
\<close>

theorem C9_guard_return:
  assumes "game_player g = Some playerRef"
    and "getTransform (game_heap g playerRef) = Some playerTransform"
  shows
    "(AIController_state ai = ''pursuing''
        \<and> \<bar>Transform_x transform - Transform_x playerTransform\<bar>
            > or_default (AIConfig_range (AIController_config ai)) 150 * 1.5
      \<longrightarrow> updateGuardAI g ai transform (Some v)
            = Inr (ai\<lparr>AIController_state := ''returning'',
                      AIController_target :=
                        Some \<lparr>Point_x = (case AIConfig_startX (AIController_config ai) of
                                          None \<Rightarrow> Transform_x transform
                                        | Some sx \<Rightarrow> if sx = 0 then Transform_x transform else sx),
                              Point_y = Transform_y transform\<rparr>\<rparr>,
                   Some (v\<lparr>Velocity_vx := or_default (AIConfig_speed (AIController_config ai)) 120
                             * (if Transform_x transform < Transform_x playerTransform then 1 else - 1)\<rparr>)))
     \<and> (AIController_state ai = ''pursuing''
        \<and> \<not> \<bar>Transform_x transform - Transform_x playerTransform\<bar>
            > or_default (AIConfig_range (AIController_config ai)) 150 * 1.5
      \<longrightarrow> updateGuardAI g ai transform (Some v)
            = Inr (ai, Some (v\<lparr>Velocity_vx := or_default (AIConfig_speed (AIController_config ai)) 120
                             * (if Transform_x transform < Transform_x playerTransform then 1 else - 1)\<rparr>)))
     \<and> (AIController_state ai = ''returning'' \<and> AIController_target ai = Some target
        \<and> \<bar>Transform_x transform - Point_x target\<bar> < 10
      \<longrightarrow> updateGuardAI g ai transform (Some v)
            = Inr (ai\<lparr>AIController_state := ''idle'', AIController_target := None\<rparr>,
                   Some (v\<lparr>Velocity_vx := 0\<rparr>)))
     \<and> (AIController_state ai = ''returning'' \<and> AIController_target ai = Some target
        \<and> \<not> \<bar>Transform_x transform - Point_x target\<bar> < 10
      \<longrightarrow> updateGuardAI g ai transform (Some v)
            = Inr (ai, Some (v\<lparr>Velocity_vx := or_default (AIConfig_speed (AIController_config ai)) 80
                             * (if Transform_x transform < Point_x target then 1 else - 1)\<rparr>)))"
  using assms
  by (simp add: updateGuardAI_def or_default_def Let_def split: option.splits)

lemma demo_game_player:
  "game_player (demo_game s) = Some 0"
  "getTransform (game_heap (demo_game s) 0) = Some (demo_transform 100 350)"
  by (simp_all add: demo_game_def demo_heap_def demo_components)

theorem C9_guard_return_witness:
  "updateGuardAI (demo_game 1) (demo_guard (demo_config (Some 900)) ''pursuing'' None)
        (demo_transform 500 200) (Some (demo_velocity 0 0))
      = Inr (demo_guard (demo_config (Some 900)) ''returning'' (Some \<lparr>Point_x = 900, Point_y = 200\<rparr>),
             Some (demo_velocity (- 80) 0))
   \<and> updateGuardAI (demo_game 1)
        (demo_guard (demo_config (Some 900)) ''returning'' (Some \<lparr>Point_x = 900, Point_y = 200\<rparr>))
        (demo_transform 500 200) (Some (demo_velocity (- 80) 0))
      = Inr (demo_guard (demo_config (Some 900)) ''returning'' (Some \<lparr>Point_x = 900, Point_y = 200\<rparr>),
             Some (demo_velocity 80 0))
   \<and> updateGuardAI (demo_game 1)
        (demo_guard (demo_config (Some 900)) ''returning'' (Some \<lparr>Point_x = 900, Point_y = 200\<rparr>))
        (demo_transform 891 200) (Some (demo_velocity 80 0))
      = Inr (demo_guard (demo_config (Some 900)) ''idle'' None, Some (demo_velocity 0 0))"
  using
    C9_guard_return [OF demo_game_player, where s1 = 1
      and ai = "demo_guard (demo_config (Some 900)) ''pursuing'' None"
      and transform = "demo_transform 500 200" and v = "demo_velocity 0 0"]
    C9_guard_return [OF demo_game_player, where s1 = 1
      and ai = "demo_guard (demo_config (Some 900)) ''returning'' (Some \<lparr>Point_x = 900, Point_y = 200\<rparr>)"
      and transform = "demo_transform 500 200" and v = "demo_velocity (- 80) 0"
      and target = "\<lparr>Point_x = 900, Point_y = 200\<rparr>"]
    C9_guard_return [OF demo_game_player, where s1 = 1
      and ai = "demo_guard (demo_config (Some 900)) ''returning'' (Some \<lparr>Point_x = 900, Point_y = 200\<rparr>)"
      and transform = "demo_transform 891 200" and v = "demo_velocity 80 0"
      and target = "\<lparr>Point_x = 900, Point_y = 200\<rparr>"]
  by (simp add: demo_guard_def demo_config_def demo_transform_def demo_velocity_def or_default_def)

section \<open>Reading a component after a write\<close>

lemma find_replace_component:
  "find (\<lambda>d. constructor_name d = n)
     (map (\<lambda>d. if constructor_name d = constructor_name c then c else d) ds)
   = (if n = constructor_name c
      then map_option (\<lambda>_. c) (find (\<lambda>d. constructor_name d = n) ds)
      else find (\<lambda>d. constructor_name d = n) ds)"
  by (induction ds) auto

lemma components_get_writeComponent:
  "components_get (writeComponent c e) key
   = (if key = Some (constructor_name c) then map_option (\<lambda>_. c) (components_get e key)
      else components_get e key)"
  by (cases key) (auto simp: components_get_def writeComponent_def find_replace_component)

lemma getComponent_ByString:
  "getComponent e (ByString n) = Inr (components_get e (Some n))"
  by (simp add: getComponent_def)

lemma components_get_destroy [simp]:
  "components_get (e\<lparr>Entity_destroy := b\<rparr>) key = components_get e key"
  by (simp add: components_get_def split: option.splits)

lemma writeComponent_fields [simp]:
  "Entity_id (writeComponent c e) = Entity_id e"
  "Entity_tags (writeComponent c e) = Entity_tags e"
  "Entity_active (writeComponent c e) = Entity_active e"
  "Entity_destroy (writeComponent c e) = Entity_destroy e"
  by (simp_all add: writeComponent_def)

lemma find_constructor_name:
  "find (\<lambda>d. constructor_name d = n) ds = Some c \<Longrightarrow> constructor_name c = n"
  by (induction ds) (auto split: if_splits)

lemma components_get_name:
  "components_get e (Some n) = Some c \<Longrightarrow> constructor_name c = n"
  unfolding components_get_def option.case by (rule find_constructor_name)

lemma get_write_same:
  "getCollectible e = Some cc \<Longrightarrow> getCollectible (writeComponent (CCollectible cc') e) = Some cc'"
  "getPlayerController e = Some pc \<Longrightarrow> getPlayerController (writeComponent (CPlayerController pc') e) = Some pc'"
  "getStreetArt e = Some art \<Longrightarrow> getStreetArt (writeComponent (CStreetArt art') e) = Some art'"
  "getHealth e = Some h \<Longrightarrow> getHealth (writeComponent (CHealth h') e) = Some h'"
  by (auto simp: getCollectible_def getPlayerController_def getStreetArt_def getHealth_def
        getComponent_ByString components_get_writeComponent split: option.splits component.splits)

lemma get_write_other:
  "constructor_name c \<noteq> ''Transform'' \<Longrightarrow> getTransform (writeComponent c e) = getTransform e"
  "constructor_name c \<noteq> ''PlayerController'' \<Longrightarrow> getPlayerController (writeComponent c e) = getPlayerController e"
  "constructor_name c \<noteq> ''Collectible'' \<Longrightarrow> getCollectible (writeComponent c e) = getCollectible e"
  "constructor_name c \<noteq> ''StreetArt'' \<Longrightarrow> getStreetArt (writeComponent c e) = getStreetArt e"
  "constructor_name c \<noteq> ''Sprite'' \<Longrightarrow> getSprite (writeComponent c e) = getSprite e"
  "constructor_name c \<noteq> ''Health'' \<Longrightarrow> getHealth (writeComponent c e) = getHealth e"
  by (simp_all add: getTransform_def getPlayerController_def getCollectible_def getStreetArt_def
        getSprite_def getHealth_def getComponent_ByString components_get_writeComponent)

lemma get_destroy [simp]:
  "getTransform (e\<lparr>Entity_destroy := b\<rparr>) = getTransform e"
  "getPlayerController (e\<lparr>Entity_destroy := b\<rparr>) = getPlayerController e"
  "getCollectible (e\<lparr>Entity_destroy := b\<rparr>) = getCollectible e"
  by (simp_all add: getTransform_def getPlayerController_def getCollectible_def
        getComponent_ByString)

section \<open>Fields of the game through the state operations\<close>

lemma emit_fields [simp]:
  "game_heap (emit c g) = game_heap g"
  "game_score (emit c g) = game_score g"
  "game_stats (emit c g) = game_stats g"
  "game_gameSpeed (emit c g) = game_gameSpeed g"
  "game_deltaTime (emit c g) = game_deltaTime g"
  "game_achievementsSystem (emit c g) = game_achievementsSystem g"
  "game_calls (emit c g) = game_calls g @ [c]"
  by (simp_all add: emit_def)

lemma modify_fields [simp]:
  "game_heap (modify r f g) = (game_heap g)(r := f (game_heap g r))"
  "game_score (modify r f g) = game_score g"
  "game_stats (modify r f g) = game_stats g"
  "game_gameSpeed (modify r f g) = game_gameSpeed g"
  "game_deltaTime (modify r f g) = game_deltaTime g"
  "game_achievementsSystem (modify r f g) = game_achievementsSystem g"
  "game_calls (modify r f g) = game_calls g"
  by (simp_all add: modify_def)

lemma addScore_fields [simp]:
  "game_heap (addScore p g) = game_heap g"
  "game_score (addScore p g) = game_score g + of_int \<lfloor>p * game_gameSpeed g\<rfloor>"
  "game_stats (addScore p g) = game_stats g"
  "game_gameSpeed (addScore p g) = game_gameSpeed g"
  "game_deltaTime (addScore p g) = game_deltaTime g"
  "game_achievementsSystem (addScore p g) = game_achievementsSystem g"
  "game_calls (addScore p g)
     = game_calls g @ [UI_updateScore (game_score g + of_int \<lfloor>p * game_gameSpeed g\<rfloor>)]"
  by (simp_all add: addScore_def)

lemma unlockAchievement_frame:
  "unlockAchievement i g
     = g\<lparr>game_achievementsSystem := game_achievementsSystem (unlockAchievement i g),
         game_calls := game_calls (unlockAchievement i g)\<rparr>"
proof (cases "achievements_get (game_achievementsSystem g) i")
  case None
  then have "unlockAchievement i g = g" by (simp add: unlockAchievement_def)
  then show ?thesis by simp
next
  case (Some a)
  show ?thesis
  proof (cases "property_unlocked (game_achievementsSystem g) a")
    case True
    with Some have "unlockAchievement i g = g" by (simp add: unlockAchievement_def)
    then show ?thesis by simp
  next
    case False
    with Some show ?thesis
      by (simp add: unlockAchievement_def emit_def saveProgress_def Let_def)
  qed
qed

lemma checkAchievement_frame:
  "checkAchievement i c g
     = g\<lparr>game_achievementsSystem := game_achievementsSystem (checkAchievement i c g),
         game_calls := game_calls (checkAchievement i c g)\<rparr>"
proof (cases "c \<and> \<not> is_unlocked g i")
  case True
  then have "checkAchievement i c g = unlockAchievement i g"
    by (simp add: checkAchievement_def)
  then show ?thesis using unlockAchievement_frame [of i g] by simp
next
  case False
  then have "checkAchievement i c g = g"
    unfolding checkAchievement_def by (rule if_not_P)
  then show ?thesis by simp
qed

lemma checkAchievement_fields [simp]:
  "game_heap (checkAchievement i c g) = game_heap g"
  "game_score (checkAchievement i c g) = game_score g"
  "game_stats (checkAchievement i c g) = game_stats g"
  "game_gameSpeed (checkAchievement i c g) = game_gameSpeed g"
  "game_deltaTime (checkAchievement i c g) = game_deltaTime g"
proof -
  show "game_heap (checkAchievement i c g) = game_heap g"
    by (subst checkAchievement_frame) simp
  show "game_score (checkAchievement i c g) = game_score g"
    by (subst checkAchievement_frame) simp
  show "game_stats (checkAchievement i c g) = game_stats g"
    by (subst checkAchievement_frame) simp
  show "game_gameSpeed (checkAchievement i c g) = game_gameSpeed g"
    by (subst checkAchievement_frame) simp
  show "game_deltaTime (checkAchievement i c g) = game_deltaTime g"
    by (subst checkAchievement_frame) simp
qed

section \<open>CollisionSystem: picking up a spray can\<close>

lemma handle_collectible_spray_can:
  assumes "getCollectible (game_heap g collectibleRef) = Some cc"
    and "\<not> Collectible_collected cc"
    and "Collectible_type cc = ''spray_can''"
    and "getPlayerController (game_heap g playerRef) = Some pc"
    and "getTransform (game_heap g playerRef) = Some pt"
  shows "\<exists>g'. handlePlayerCollectibleCollision playerRef collectibleRef g = Inr g'
           \<and> getPlayerController (game_heap g' playerRef)
               = Some (pc\<lparr>PlayerController_sprayPower :=
                            min (PlayerController_maxSprayPower pc) (PlayerController_sprayPower pc + 25)\<rparr>)
           \<and> getCollectible (game_heap g' collectibleRef) = Some (cc\<lparr>Collectible_collected := True\<rparr>)
           \<and> Entity_destroy (game_heap g' collectibleRef)
           \<and> game_score g' = game_score g + of_int \<lfloor>Collectible_value cc * game_gameSpeed g\<rfloor>"
  using assms
  by (auto simp: handlePlayerCollectibleCollision_def Let_def get_write_same get_write_other)

lemma demo_game_heap:
  "game_heap (demo_game s) 0 = demo_player"
  "game_heap (demo_game s) 5 = demo_spray_can"
  "game_heap (demo_game s) 2 = demo_wall"
  "game_score (demo_game s) = 0"
  "game_gameSpeed (demo_game s) = s"
  "game_deltaTime (demo_game s) = 1 / 10"
  by (simp_all add: demo_game_def demo_heap_def)

text \<open>
  C4, as stated, says the score grows by exactly the collectible's value. The handler
  calls \<^verbatim>\<open>addScore(value)\<close>, which adds \<^verbatim>\<open>Math.floor(points * this.gameSpeed)\<close>;
  the game loop raises \<open>gameSpeed\<close> from 1 towards 2 as the run goes on. With
  \<open>gameSpeed = 2\<close>, picking up the spray can of value 25 takes the score from 0 to 50.
\<close>

theorem C4_score_counterexample:
  "Collectible_value (demo_collectible ''spray_can'' 25) = 25
   \<and> game_score (demo_game 2) = 0
   \<and> map_sum id game_score (handlePlayerCollectibleCollision 0 5 (demo_game 2)) = Inr 50"
proof -
  obtain g' where "handlePlayerCollectibleCollision 0 5 (demo_game 2) = Inr g'"
    and "game_score g' = game_score (demo_game 2)
           + of_int \<lfloor>Collectible_value (demo_collectible ''spray_can'' 25) * game_gameSpeed (demo_game 2)\<rfloor>"
    using handle_collectible_spray_can [where g = "demo_game 2" and collectibleRef = 5
        and playerRef = 0 and cc = "demo_collectible ''spray_can'' 25"
        and pc = "demo_controller 50 True" and pt = "demo_transform 100 350"]
    by (auto simp: demo_game_heap demo_components demo_collectible_def)
  then show ?thesis
    by (simp add: demo_game_heap demo_collectible_def)
qed

text \<open>
  C4 (amended): for a player entity with a Transform whose PlayerController has
  \<open>sprayPower = 50\<close> and \<open>maxSprayPower = 100\<close>, colliding with an uncollected
  \<^verbatim>\<open>spray_can\<close> collectible, the handler returns normally, sets \<open>sprayPower\<close> to
  75, sets the collectible's \<open>collected\<close> latch, marks the collectible entity
  \<open>destroy = true\<close>, and increases the score by \<open>floor(value * gameSpeed)\<close>; that
  is exactly the collectible's value when \<open>gameSpeed\<close> is 1 and the value is an
  integer.
\<close>

theorem C4_spray_can_pickup:
  assumes "getCollectible (game_heap g collectibleRef) = Some cc"
    and "\<not> Collectible_collected cc"
    and "Collectible_type cc = ''spray_can''"
    and "getPlayerController (game_heap g playerRef) = Some pc"
    and "PlayerController_sprayPower pc = 50"
    and "PlayerController_maxSprayPower pc = 100"
    and "getTransform (game_heap g playerRef) = Some pt"
  shows "\<exists>g'. handlePlayerCollectibleCollision playerRef collectibleRef g = Inr g'
           \<and> getPlayerController (game_heap g' playerRef)
               = Some (pc\<lparr>PlayerController_sprayPower := 75\<rparr>)
           \<and> getCollectible (game_heap g' collectibleRef) = Some (cc\<lparr>Collectible_collected := True\<rparr>)
           \<and> Entity_destroy (game_heap g' collectibleRef)
           \<and> game_score g' = game_score g + of_int \<lfloor>Collectible_value cc * game_gameSpeed g\<rfloor>
           \<and> (game_gameSpeed g = 1 \<and> Collectible_value cc \<in> \<int>
                \<longrightarrow> game_score g' = game_score g + Collectible_value cc)"
proof -
  obtain g' where h: "handlePlayerCollectibleCollision playerRef collectibleRef g = Inr g'"
    and pc': "getPlayerController (game_heap g' playerRef)
               = Some (pc\<lparr>PlayerController_sprayPower :=
                            min (PlayerController_maxSprayPower pc) (PlayerController_sprayPower pc + 25)\<rparr>)"
    and cc': "getCollectible (game_heap g' collectibleRef) = Some (cc\<lparr>Collectible_collected := True\<rparr>)"
    and d: "Entity_destroy (game_heap g' collectibleRef)"
    and s: "game_score g' = game_score g + of_int \<lfloor>Collectible_value cc * game_gameSpeed g\<rfloor>"
    using handle_collectible_spray_can [OF assms(1,2,3,4,7)] by blast
  have "min (PlayerController_maxSprayPower pc) (PlayerController_sprayPower pc + 25) = 75"
    by (simp add: assms(5,6))
  with pc' have p75: "getPlayerController (game_heap g' playerRef)
               = Some (pc\<lparr>PlayerController_sprayPower := 75\<rparr>)"
    by simp
  have "game_gameSpeed g = 1 \<and> Collectible_value cc \<in> \<int>
          \<longrightarrow> game_score g' = game_score g + Collectible_value cc"
    using s by auto
  with h p75 cc' d s show ?thesis by blast
qed

theorem C4_spray_can_pickup_witness:
  "\<exists>g'. handlePlayerCollectibleCollision 0 5 (demo_game 1) = Inr g'
        \<and> getPlayerController (game_heap g' 0) = Some (demo_controller 75 True)
        \<and> getCollectible (game_heap g' 5)
            = Some ((demo_collectible ''spray_can'' 25)\<lparr>Collectible_collected := True\<rparr>)
        \<and> Entity_destroy (game_heap g' 5)
        \<and> game_score g' = 25"
  using C4_spray_can_pickup [where g = "demo_game 1" and collectibleRef = 5
      and playerRef = 0 and cc = "demo_collectible ''spray_can'' 25"
      and pc = "demo_controller 50 True" and pt = "demo_transform 100 350"]
  by (simp add: demo_game_heap demo_components demo_collectible_def demo_controller_def)

section \<open>CollisionSystem: painting street art\<close>

lemma spray_tick_props:
  "game_score (spray_tick p s pc1 art1 g) = game_score g"
  "game_stats (spray_tick p s pc1 art1 g) = game_stats g"
  "game_gameSpeed (spray_tick p s pc1 art1 g) = game_gameSpeed g"
  "getTransform (game_heap (spray_tick p s pc1 art1 g) r) = getTransform (game_heap g r)"
  "getStreetArt (game_heap g s) = Some art
     \<Longrightarrow> getStreetArt (game_heap (spray_tick p s pc1 art1 g) s) = Some art1"
  "getPlayerController (game_heap g p) = Some pc
     \<Longrightarrow> getPlayerController (game_heap (spray_tick p s pc1 art1 g) p) = Some pc1"
  by (auto simp: spray_tick_def get_write_other get_write_same)

lemma paint_completed_props:
  "game_score (paint_completed s art1 g) = game_score g + of_int \<lfloor>100 * game_gameSpeed g\<rfloor>"
  "Stats_wallsPainted (game_stats (paint_completed s art1 g)) = Stats_wallsPainted (game_stats g) + 1"
  "getStreetArt (game_heap g s) = Some art
     \<Longrightarrow> getStreetArt (game_heap (paint_completed s art1 g) s) = Some (art1\<lparr>StreetArt_painted := True\<rparr>)"
  "getPlayerController (game_heap (paint_completed s art1 g) p) = getPlayerController (game_heap g p)"
  by (auto simp: paint_completed_def Let_def get_write_other get_write_same split: option.splits)

lemma street_art_inactive:
  assumes "getStreetArt (game_heap g streetartRef) = Some art"
    and "\<not> (\<exists>pc. getPlayerController (game_heap g playerRef) = Some pc
               \<and> Actions_spray (PlayerController_actions pc)
               \<and> PlayerController_sprayPower pc > 0 \<and> \<not> StreetArt_painted art)"
  shows "handlePlayerStreetArtCollision random1 random2 playerRef streetartRef g = Inr g"
  using assms
  by (auto simp: handlePlayerStreetArtCollision_def split: option.splits)

lemma street_art_active:
  assumes art: "getStreetArt (game_heap g streetartRef) = Some art"
    and tr: "getTransform (game_heap g streetartRef) = Some tr"
    and pc: "getPlayerController (game_heap g playerRef) = Some pc"
    and spray: "Actions_spray (PlayerController_actions pc)"
    and power: "PlayerController_sprayPower pc > 0"
    and unpainted: "\<not> StreetArt_painted art"
  shows "\<exists>g'. handlePlayerStreetArtCollision random1 random2 playerRef streetartRef g = Inr g'
          \<and> getStreetArt (game_heap g' streetartRef)
              = Some (art\<lparr>StreetArt_paintProgress := StreetArt_paintProgress art + 50 * game_deltaTime g,
                        StreetArt_painted :=
                          (StreetArt_paintProgress art + 50 * game_deltaTime g \<ge> StreetArt_requiredPaint art)\<rparr>)
          \<and> getPlayerController (game_heap g' playerRef)
              = Some (pc\<lparr>PlayerController_sprayPower :=
                          max 0 (PlayerController_sprayPower pc - 50 * game_deltaTime g / 2)\<rparr>)
          \<and> game_score g' = game_score g
              + (if StreetArt_paintProgress art + 50 * game_deltaTime g \<ge> StreetArt_requiredPaint art
                 then of_int \<lfloor>100 * game_gameSpeed g\<rfloor> else 0)
          \<and> Stats_wallsPainted (game_stats g') = Stats_wallsPainted (game_stats g)
              + (if StreetArt_paintProgress art + 50 * game_deltaTime g \<ge> StreetArt_requiredPaint art
                 then 1 else 0)"
proof (cases "StreetArt_paintProgress art + 50 * game_deltaTime g \<ge> StreetArt_requiredPaint art")
  case True
  with assms show ?thesis
    by (simp add: handlePlayerStreetArtCollision_def Let_def spray_tick_props paint_completed_props)
next
  case False
  with assms show ?thesis
    by (simp add: handlePlayerStreetArtCollision_def Let_def spray_tick_props)
qed

text \<open>
  C5: on a street-art entity with a StreetArt component, the handler changes nothing
  at all (state and collaborator calls) unless the player has a controller whose spray
  flag is set and whose spray power is positive and the art is unpainted; in particular
  it changes nothing once \<open>painted\<close> is true. When those conditions hold (and the art
  has a Transform), paint progress grows by 50 times the frame delta, spray power drops
  by half of that and not below 0, \<open>painted\<close> becomes true exactly when the new
  progress reaches \<open>requiredPaint\<close>, and the score and the painted-wall counter
  grow only in that case; after that tick every further call of the handler on the
  art, by any player, leaves the state unchanged.
\<close>

theorem C5_street_art_painting:
  assumes "getStreetArt (game_heap g streetartRef) = Some art"
  shows
    "(\<not> (\<exists>pc. getPlayerController (game_heap g playerRef) = Some pc
               \<and> Actions_spray (PlayerController_actions pc)
               \<and> PlayerController_sprayPower pc > 0 \<and> \<not> StreetArt_painted art)
        \<longrightarrow> handlePlayerStreetArtCollision random1 random2 playerRef streetartRef g = Inr g)
     \<and> (StreetArt_painted art
        \<longrightarrow> handlePlayerStreetArtCollision random1 random2 playerRef streetartRef g = Inr g)
     \<and> (getPlayerController (game_heap g playerRef) = Some pc
          \<and> Actions_spray (PlayerController_actions pc)
          \<and> PlayerController_sprayPower pc > 0 \<and> \<not> StreetArt_painted art
          \<and> getTransform (game_heap g streetartRef) = Some tr
        \<longrightarrow> (\<exists>g'. handlePlayerStreetArtCollision random1 random2 playerRef streetartRef g = Inr g'
              \<and> getStreetArt (game_heap g' streetartRef)
                  = Some (art\<lparr>StreetArt_paintProgress := StreetArt_paintProgress art + 50 * game_deltaTime g,
                            StreetArt_painted :=
                              (StreetArt_paintProgress art + 50 * game_deltaTime g
                                 \<ge> StreetArt_requiredPaint art)\<rparr>)
              \<and> getPlayerController (game_heap g' playerRef)
                  = Some (pc\<lparr>PlayerController_sprayPower :=
                              max 0 (PlayerController_sprayPower pc - 50 * game_deltaTime g / 2)\<rparr>)
              \<and> game_score g' = game_score g
                  + (if StreetArt_paintProgress art + 50 * game_deltaTime g \<ge> StreetArt_requiredPaint art
                     then of_int \<lfloor>100 * game_gameSpeed g\<rfloor> else 0)
              \<and> Stats_wallsPainted (game_stats g') = Stats_wallsPainted (game_stats g)
                  + (if StreetArt_paintProgress art + 50 * game_deltaTime g \<ge> StreetArt_requiredPaint art
                     then 1 else 0)
              \<and> (StreetArt_paintProgress art + 50 * game_deltaTime g \<ge> StreetArt_requiredPaint art
                   \<longrightarrow> (\<forall>r1 r2 p. handlePlayerStreetArtCollision r1 r2 p streetartRef g' = Inr g'))))"
proof (intro conjI impI)
  assume "\<not> (\<exists>pc. getPlayerController (game_heap g playerRef) = Some pc
               \<and> Actions_spray (PlayerController_actions pc)
               \<and> PlayerController_sprayPower pc > 0 \<and> \<not> StreetArt_painted art)"
  then show "handlePlayerStreetArtCollision random1 random2 playerRef streetartRef g = Inr g"
    by (rule street_art_inactive [OF assms])
next
  assume "StreetArt_painted art"
  then show "handlePlayerStreetArtCollision random1 random2 playerRef streetartRef g = Inr g"
    by (intro street_art_inactive [OF assms]) simp
next
  assume a: "getPlayerController (game_heap g playerRef) = Some pc
          \<and> Actions_spray (PlayerController_actions pc)
          \<and> PlayerController_sprayPower pc > 0 \<and> \<not> StreetArt_painted art
          \<and> getTransform (game_heap g streetartRef) = Some tr"
  let ?art' = "art\<lparr>StreetArt_paintProgress := StreetArt_paintProgress art + 50 * game_deltaTime g,
                    StreetArt_painted :=
                      (StreetArt_paintProgress art + 50 * game_deltaTime g \<ge> StreetArt_requiredPaint art)\<rparr>"
  obtain g' where h: "handlePlayerStreetArtCollision random1 random2 playerRef streetartRef g = Inr g'"
    and art': "getStreetArt (game_heap g' streetartRef) = Some ?art'"
    and rest: "getPlayerController (game_heap g' playerRef)
                  = Some (pc\<lparr>PlayerController_sprayPower :=
                              max 0 (PlayerController_sprayPower pc - 50 * game_deltaTime g / 2)\<rparr>)"
      "game_score g' = game_score g
                  + (if StreetArt_paintProgress art + 50 * game_deltaTime g \<ge> StreetArt_requiredPaint art
                     then of_int \<lfloor>100 * game_gameSpeed g\<rfloor> else 0)"
      "Stats_wallsPainted (game_stats g') = Stats_wallsPainted (game_stats g)
                  + (if StreetArt_paintProgress art + 50 * game_deltaTime g \<ge> StreetArt_requiredPaint art
                     then 1 else 0)"
    using street_art_active [OF assms, of tr playerRef pc random1 random2] a by blast
  have once: "StreetArt_paintProgress art + 50 * game_deltaTime g \<ge> StreetArt_requiredPaint art
                \<longrightarrow> (\<forall>r1 r2 p. handlePlayerStreetArtCollision r1 r2 p streetartRef g' = Inr g')"
  proof (intro impI allI)
    fix r1 r2 p
    assume "StreetArt_paintProgress art + 50 * game_deltaTime g \<ge> StreetArt_requiredPaint art"
    then have "StreetArt_painted ?art'" by simp
    then show "handlePlayerStreetArtCollision r1 r2 p streetartRef g' = Inr g'"
      by (intro street_art_inactive [OF art']) simp
  qed
  show "\<exists>g'. handlePlayerStreetArtCollision random1 random2 playerRef streetartRef g = Inr g'
              \<and> getStreetArt (game_heap g' streetartRef) = Some ?art'
              \<and> getPlayerController (game_heap g' playerRef)
                  = Some (pc\<lparr>PlayerController_sprayPower :=
                              max 0 (PlayerController_sprayPower pc - 50 * game_deltaTime g / 2)\<rparr>)
              \<and> game_score g' = game_score g
                  + (if StreetArt_paintProgress art + 50 * game_deltaTime g \<ge> StreetArt_requiredPaint art
                     then of_int \<lfloor>100 * game_gameSpeed g\<rfloor> else 0)
              \<and> Stats_wallsPainted (game_stats g') = Stats_wallsPainted (game_stats g)
                  + (if StreetArt_paintProgress art + 50 * game_deltaTime g \<ge> StreetArt_requiredPaint art
                     then 1 else 0)
              \<and> (StreetArt_paintProgress art + 50 * game_deltaTime g \<ge> StreetArt_requiredPaint art
                   \<longrightarrow> (\<forall>r1 r2 p. handlePlayerStreetArtCollision r1 r2 p streetartRef g' = Inr g'))"
    using h art' rest once by blast
qed

lemma demo_game_stats:
  "Stats_wallsPainted (game_stats (demo_game s)) = 0"
  by (simp add: demo_game_def)

theorem C5_street_art_painting_witness:
  "\<exists>g'. handlePlayerStreetArtCollision (1 / 2) (1 / 2) 0 2 (demo_game 1) = Inr g'
        \<and> getStreetArt (game_heap g' 2) = Some ((demo_art 103)\<lparr>StreetArt_painted := True\<rparr>)
        \<and> getPlayerController (game_heap g' 0) = Some (demo_controller (95 / 2) True)
        \<and> game_score g' = 100
        \<and> Stats_wallsPainted (game_stats g') = 1
        \<and> handlePlayerStreetArtCollision (1 / 3) (2 / 3) 0 2 g' = Inr g'"
proof -
  have art: "getStreetArt (game_heap (demo_game 1) 2) = Some (demo_art 98)"
    by (simp add: demo_game_heap demo_components)
  have active: "getPlayerController (game_heap (demo_game 1) 0) = Some (demo_controller 50 True)
          \<and> Actions_spray (PlayerController_actions (demo_controller 50 True))
          \<and> PlayerController_sprayPower (demo_controller 50 True) > 0
          \<and> \<not> StreetArt_painted (demo_art 98)
          \<and> getTransform (game_heap (demo_game 1) 2) = Some (demo_transform 90 100)"
    by (simp add: demo_game_heap demo_components demo_controller_def demo_art_def)
  have crossing: "StreetArt_paintProgress (demo_art 98) + 50 * game_deltaTime (demo_game 1)
                    \<ge> StreetArt_requiredPaint (demo_art 98)"
    by (simp add: demo_art_def demo_game_heap)
  from C5_street_art_painting [OF art, where playerRef = 0 and pc = "demo_controller 50 True"
      and tr = "demo_transform 90 100" and ?random1.0 = "1 / 2" and ?random2.0 = "1 / 2"]
    active crossing
  obtain g' where "handlePlayerStreetArtCollision (1 / 2) (1 / 2) 0 2 (demo_game 1) = Inr g'"
    and "getStreetArt (game_heap g' 2)
           = Some ((demo_art 98)\<lparr>StreetArt_paintProgress :=
                       StreetArt_paintProgress (demo_art 98) + 50 * game_deltaTime (demo_game 1),
                     StreetArt_painted := True\<rparr>)"
    and "getPlayerController (game_heap g' 0)
           = Some ((demo_controller 50 True)\<lparr>PlayerController_sprayPower :=
                 max 0 (PlayerController_sprayPower (demo_controller 50 True)
                          - 50 * game_deltaTime (demo_game 1) / 2)\<rparr>)"
    and "game_score g' = game_score (demo_game 1) + of_int \<lfloor>100 * game_gameSpeed (demo_game 1)\<rfloor>"
    and "Stats_wallsPainted (game_stats g') = Stats_wallsPainted (game_stats (demo_game 1)) + 1"
    and "\<forall>r1 r2 p. handlePlayerStreetArtCollision r1 r2 p 2 g' = Inr g'"
    by auto
  then show ?thesis
    by (intro exI [of _ g'])
       (simp add: demo_game_heap demo_game_stats demo_art_def demo_controller_def)
qed

section \<open>EntityManager: component-set queries\<close>



lemma entities_with_sound:
  "entities_with h ks rs = Inr result \<Longrightarrow> r \<in> set result
     \<Longrightarrow> r \<in> set rs \<and> Entity_active (h r) \<and> \<not> Entity_destroy (h r)
         \<and> every_hasComponent (h r) ks = Inr True"
proof (induction rs arbitrary: result)
  case Nil
  then show ?case by simp
next
  case (Cons x xs)
  show ?case
  proof (cases "\<not> Entity_active (h x) \<or> Entity_destroy (h x)")
    case True
    with Cons.prems have "entities_with h ks xs = Inr result" by simp
    from Cons.IH [OF this Cons.prems(2)] show ?thesis by simp
  next
    case False
    with Cons.prems(1) obtain b res where b: "every_hasComponent (h x) ks = Inr b"
      and res: "entities_with h ks xs = Inr res"
      and result: "result = (if b then x # res else res)"
      by (auto split: sum.splits)
    show ?thesis
    proof (cases "r \<in> set res")
      case True
      from Cons.IH [OF res True] show ?thesis by simp
    next
      case notin: False
      with Cons.prems(2) result have "b" "r = x" by (auto split: if_splits)
      with b False show ?thesis by simp
    qed
  qed
qed

lemma returned_getEntitiesWith:
  assumes "r \<in> set (returned (getEntitiesWith h m ks))"
  shows "r \<in> snd ` set (entities m)" and "Entity_active (h r)" and "\<not> Entity_destroy (h r)"
    and "every_hasComponent (h r) ks = Inr True"
proof -
  from assms obtain result where res: "getEntitiesWith h m ks = Inr result" and r: "r \<in> set result"
    by (cases "getEntitiesWith h m ks") auto
  from entities_with_sound [OF res [unfolded getEntitiesWith_def] r]
  show "r \<in> snd ` set (entities m)" and "Entity_active (h r)" and "\<not> Entity_destroy (h r)"
    and "every_hasComponent (h r) ks = Inr True"
    by auto
qed











section \<open>EntityManager: the primary store through a flush\<close>

lemma fold_add_staged_fields:
  "entities (fold (add_staged h) rs m)
     = fold (\<lambda>r. AList.update (Entity_id (h r)) r) rs (entities m)"
  "entitiesByTag (fold (add_staged h) rs m)
     = fold (\<lambda>r. fold (index_tag r) (Entity_tags (h r))) rs (entitiesByTag m)"
  "entitiesToAdd (fold (add_staged h) rs m) = entitiesToAdd m"
  "entitiesToRemove (fold (add_staged h) rs m) = entitiesToRemove m"
  by (induction rs arbitrary: m) (simp_all add: add_staged_def)

lemma fold_remove_staged_fields:
  "entities (fold (remove_staged h) rs m)
     = fold (\<lambda>r. AList.delete (Entity_id (h r))) rs (entities m)"
  "entitiesByTag (fold (remove_staged h) rs m)
     = fold (\<lambda>r. fold (unindex_tag r) (Entity_tags (h r))) rs (entitiesByTag m)"
  "entitiesToAdd (fold (remove_staged h) rs m) = entitiesToAdd m"
  "entitiesToRemove (fold (remove_staged h) rs m) = entitiesToRemove m"
  by (induction rs arbitrary: m) (simp_all add: remove_staged_def)

lemma set_update_subset:
  "p \<in> set (AList.update k v al) \<Longrightarrow> p = (k, v) \<or> p \<in> set al"
  by (induction al) (auto split: if_splits)

lemma set_fold_delete:
  "set (fold (\<lambda>r. AList.delete (f r)) rs al) = {p \<in> set al. fst p \<notin> f ` set rs}"
  by (induction rs arbitrary: al) (auto simp: AList.delete_eq)

lemma map_of_fold_delete:
  "map_of (fold (\<lambda>r. AList.delete (f r)) rs al) k
     = (if k \<in> f ` set rs then None else map_of al k)"
  by (induction rs arbitrary: al) (auto simp: AList.delete_conv')

lemma distinct_fold_delete:
  "distinct (map fst al) \<Longrightarrow> distinct (map fst (fold (\<lambda>r. AList.delete (f r)) rs al))"
  by (induction rs arbitrary: al) (simp_all add: AList.distinct_delete)

lemma distinct_fold_update:
  "distinct (map fst al) \<Longrightarrow> distinct (map fst (fold (\<lambda>r. AList.update (f r) r) rs al))"
  by (induction rs arbitrary: al) (simp_all add: AList.distinct_update)

lemma keyed_fold_update:
  "list_all (\<lambda>(k, r). f r = k) al
     \<Longrightarrow> list_all (\<lambda>(k, r). f r = k) (fold (\<lambda>r. AList.update (f r) r) rs al)"
proof (induction rs arbitrary: al)
  case Nil
  then show ?case by simp
next
  case (Cons x xs)
  have "list_all (\<lambda>(k, r). f r = k) (AList.update (f x) x al)"
    using Cons.prems set_update_subset [of _ "f x" x al]
    by (fastforce simp: list_all_iff)
  then show ?case using Cons.IH by simp
qed

lemma map_of_fold_update_last:
  assumes "r \<in> set rs \<or> map_of al (f r) = Some r"
    and "\<forall>r' \<in> set rs. f r' = f r \<longrightarrow> r' = r"
  shows "map_of (fold (\<lambda>r. AList.update (f r) r) rs al) (f r) = Some r"
  using assms
proof (induction rs arbitrary: al)
  case Nil
  then show ?case by simp
next
  case (Cons x xs)
  have "map_of (AList.update (f x) x al) (f r) = Some r \<or> r \<in> set xs"
    using Cons.prems by (auto simp: AList.update_conv')
  then show ?case using Cons.IH [of "AList.update (f x) x al"] Cons.prems(2) by auto
qed

lemma store_keyed_flush_additions:
  assumes "store_keyed h m"
  shows "store_keyed h (flush_additions h m)"
  using assms
  by (simp add: store_keyed_def flush_additions_def fold_add_staged_fields
        distinct_fold_update keyed_fold_update)

lemma entities_update:
  "entities (update h m)
     = fold (\<lambda>r. AList.delete (Entity_id (h r)))
         (entitiesToRemove m
            @ filter (\<lambda>r. Entity_destroy (h r)) (map snd (entities (flush_additions h m))))
         (entities (flush_additions h m))"
  by (simp add: update_def flush_removals_def stage_destroyed_def fold_remove_staged_fields
        flush_additions_def fold_add_staged_fields)

lemma store_keyed_update:
  assumes "store_keyed h m"
  shows "store_keyed h (update h m)"
proof -
  have k: "store_keyed h (flush_additions h m)"
    by (rule store_keyed_flush_additions [OF assms])
  show ?thesis
    unfolding store_keyed_def entities_update
    using k by (auto simp: store_keyed_def distinct_fold_delete set_fold_delete list_all_iff)
qed

lemma store_keyed_staging:
  "store_keyed h new_EntityManager"
  "store_keyed h (addEntity r m) = store_keyed h m"
  "store_keyed h (removeEntity r m) = store_keyed h m"
  by (simp_all add: store_keyed_def new_EntityManager_def addEntity_def removeEntity_def)

lemma stored_after_update:
  assumes "store_keyed h m" and "(k, r) \<in> set (entities (update h m))"
  shows "k = Entity_id (h r)" and "\<not> Entity_destroy (h r)"
    and "Entity_id (h r) \<notin> (\<lambda>r. Entity_id (h r)) ` set (entitiesToRemove m)"
    and "(k, r) \<in> set (entities (flush_additions h m))"
proof -
  let ?es1 = "entities (flush_additions h m)"
  let ?rm = "entitiesToRemove m @ filter (\<lambda>r. Entity_destroy (h r)) (map snd ?es1)"
  have in1: "(k, r) \<in> set ?es1" and notrm: "k \<notin> (\<lambda>r. Entity_id (h r)) ` set ?rm"
    using assms(2) by (auto simp: entities_update set_fold_delete)
  have key: "k = Entity_id (h r)"
    using store_keyed_flush_additions [OF assms(1)] in1
    by (auto simp: store_keyed_def list_all_iff)
  show "k = Entity_id (h r)" by (rule key)
  show "(k, r) \<in> set ?es1" by (rule in1)
  show "\<not> Entity_destroy (h r)"
  proof
    assume "Entity_destroy (h r)"
    with in1 have "r \<in> set ?rm" by force
    with notrm key show False by blast
  qed
  show "Entity_id (h r) \<notin> (\<lambda>r. Entity_id (h r)) ` set (entitiesToRemove m)"
    using notrm key by auto
qed


lemma getEntity_flush_additions:
  assumes "r \<in> set (entitiesToAdd m)"
    and "\<forall>r' \<in> set (entitiesToAdd m). Entity_id (h r') = Entity_id (h r) \<longrightarrow> r' = r"
  shows "getEntity (flush_additions h m) (Entity_id (h r)) = Some r"
  using map_of_fold_update_last [of r "entitiesToAdd m" "entities m" "\<lambda>r. Entity_id (h r)"] assms
  by (simp add: getEntity_def flush_additions_def fold_add_staged_fields)

lemma getEntity_update:
  "getEntity (update h m) k
     = (if k \<in> (\<lambda>r. Entity_id (h r))
                 ` set (entitiesToRemove m
                        @ filter (\<lambda>r. Entity_destroy (h r)) (map snd (entities (flush_additions h m))))
        then None else getEntity (flush_additions h m) k)"
  by (simp only: getEntity_def entities_update map_of_fold_delete)

lemma demo_flush_entities:
  "Entity_id (demo_flush_heap 0) = ''_player''" "Entity_id (demo_flush_heap 5) = ''_can''"
  "Entity_id (demo_flush_heap 2) = ''_wall''" "Entity_id (demo_flush_heap 3) = ''_gone''"
  "Entity_id (demo_flush_heap 4) = ''_dup''"
  "Entity_tags (demo_flush_heap 0) = [''player'']" "Entity_tags (demo_flush_heap 5) = [''collectible'']"
  "Entity_tags (demo_flush_heap 2) = [''building'', ''streetart'']"
  "Entity_tags (demo_flush_heap 3) = [''obstacle'']" "Entity_tags (demo_flush_heap 4) = [''obstacle'']"
  "\<not> Entity_destroy (demo_flush_heap 0)" "Entity_destroy (demo_flush_heap 5)"
  "\<not> Entity_destroy (demo_flush_heap 2)" "Entity_destroy (demo_flush_heap 3)"
  "\<not> Entity_destroy (demo_flush_heap 4)"
  by (simp_all add: demo_flush_heap_def demo_heap_def demo_obstacle_def demo_player_def
        demo_spray_can_def demo_wall_def demo_box_def addComponent_def addTag_def new_Entity_def)

lemma demo_manager_fields:
  "entities demo_manager = [(''_player'', 0), (''_can'', 5), (''_wall'', 2)]"
  "entitiesByTag demo_manager
     = [(''player'', [0]), (''collectible'', [5]), (''building'', [2]), (''streetart'', [2])]"
  "entitiesToAdd demo_manager = []" "entitiesToRemove demo_manager = []"
  by (simp_all add: demo_manager_def demo_game_def)

lemma demo_manager_keyed: "store_keyed demo_flush_heap demo_manager"
  by (simp add: store_keyed_def demo_manager_fields demo_flush_entities)


section \<open>EntityManager: the tag indices through a flush\<close>

lemma bucket_index_tag:
  "bucket (index_tag r t' idx) t = (if t = t' then bucket idx t @ [r] else bucket idx t)"
  by (simp add: bucket_def index_tag_def AList.update_conv')

lemma bucket_unindex_tag:
  "bucket (unindex_tag r t' idx) t = (if t = t' then remove1 r (bucket idx t) else bucket idx t)"
  by (cases "map_of idx t'") (simp_all add: bucket_def unindex_tag_def AList.update_conv')

lemma count_bucket_index_tags:
  "count_list (bucket (fold (index_tag r) ts idx) t) x
     = count_list (bucket idx t) x + (if x = r then count_list ts t else 0)"
  by (induction ts arbitrary: idx) (simp_all add: bucket_index_tag)

lemma count_bucket_unindex_tags:
  "count_list (bucket (fold (unindex_tag r) ts idx) t) x
     = count_list (bucket idx t) x - (if x = r then count_list ts t else 0)"
  by (induction ts arbitrary: idx) (simp_all add: bucket_unindex_tag)

lemma count_bucket_index_all:
  "count_list (bucket (fold (\<lambda>r. fold (index_tag r) (tg r)) rs idx) t) x
     = count_list (bucket idx t) x + count_list rs x * count_list (tg x) t"
  by (induction rs arbitrary: idx) (simp_all add: count_bucket_index_tags)

lemma count_bucket_unindex_all:
  "count_list (bucket (fold (\<lambda>r. fold (unindex_tag r) (tg r)) rs idx) t) x
     = count_list (bucket idx t) x - count_list rs x * count_list (tg x) t"
  by (induction rs arbitrary: idx) (simp_all add: count_bucket_unindex_tags)

lemma count_tag_flush_additions:
  "count_list (getEntitiesByTag (flush_additions h m) t) x
     = count_list (getEntitiesByTag m t) x
       + count_list (entitiesToAdd m) x * count_list (Entity_tags (h x)) t"
  by (simp add: getEntitiesByTag_def flush_additions_def fold_add_staged_fields
        count_bucket_index_all)

lemma count_tag_update:
  "count_list (getEntitiesByTag (update h m) t) x
     = count_list (getEntitiesByTag (flush_additions h m) t) x
       - count_list (entitiesToRemove m
                       @ filter (\<lambda>r. Entity_destroy (h r)) (map snd (entities (flush_additions h m)))) x
         * count_list (Entity_tags (h x)) t"
  by (simp add: getEntitiesByTag_def update_def flush_removals_def stage_destroyed_def
        fold_remove_staged_fields count_bucket_unindex_all flush_additions_def
        fold_add_staged_fields add_mult_distrib)

lemma staging_frame:
  "entities (addEntity r m) = entities m" "entitiesByTag (addEntity r m) = entitiesByTag m"
  "entities (removeEntity r m) = entities m" "entitiesByTag (removeEntity r m) = entitiesByTag m"
  "getEntitiesWith h (addEntity r m) ks = getEntitiesWith h m ks"
  "getEntitiesWith h (removeEntity r m) ks = getEntitiesWith h m ks"
  "getEntitiesByTag (addEntity r m) t = getEntitiesByTag m t"
  "getEntitiesByTag (removeEntity r m) t = getEntitiesByTag m t"
  by (simp_all add: addEntity_def removeEntity_def getEntitiesWith_def getEntitiesByTag_def)

lemma count_list_pos: "x \<in> set xs \<Longrightarrow> 0 < count_list xs x"
  by (metis count_list_0_iff gr0I)

lemma added_survives:
  assumes keyed: "store_keyed h m"
    and r: "r \<in> set (entitiesToAdd m)"
    and alive: "\<not> Entity_destroy (h r)"
    and notrm: "Entity_id (h r) \<notin> (\<lambda>x. Entity_id (h x)) ` set (entitiesToRemove m)"
    and uniq: "\<forall>r' \<in> set (entitiesToAdd m). Entity_id (h r') = Entity_id (h r) \<longrightarrow> r' = r"
  shows "getEntity (update h m) (Entity_id (h r)) = Some r"
    and "\<forall>t \<in> set (Entity_tags (h r)). r \<in> set (getEntitiesByTag (update h m) t)"
proof -
  let ?es1 = "entities (flush_additions h m)"
  let ?dead = "filter (\<lambda>r. Entity_destroy (h r)) (map snd ?es1)"
  have in1: "getEntity (flush_additions h m) (Entity_id (h r)) = Some r"
    by (rule getEntity_flush_additions [OF r uniq])
  have k1: "store_keyed h (flush_additions h m)"
    by (rule store_keyed_flush_additions [OF keyed])
  have nodead: "Entity_id (h r) \<notin> (\<lambda>x. Entity_id (h x)) ` set ?dead"
  proof
    assume "Entity_id (h r) \<in> (\<lambda>x. Entity_id (h x)) ` set ?dead"
    then obtain r' k where r': "(k, r') \<in> set ?es1" "Entity_destroy (h r')"
      "Entity_id (h r') = Entity_id (h r)"
      by auto
    with k1 have "(Entity_id (h r), r') \<in> set ?es1"
      by (auto simp: store_keyed_def list_all_iff)
    with k1 have "map_of ?es1 (Entity_id (h r)) = Some r'"
      by (simp add: store_keyed_def)
    with in1 have "r' = r" by (simp add: getEntity_def)
    with r'(2) alive show False by simp
  qed
  show "getEntity (update h m) (Entity_id (h r)) = Some r"
    using notrm nodead in1 by (simp add: getEntity_update image_Un)
  have rm0: "count_list (entitiesToRemove m @ ?dead) r = 0"
    using notrm alive by (auto simp: count_list_0_iff)
  show "\<forall>t \<in> set (Entity_tags (h r)). r \<in> set (getEntitiesByTag (update h m) t)"
  proof
    fix t assume t: "t \<in> set (Entity_tags (h r))"
    have "count_list (entitiesToAdd m) r > 0" "count_list (Entity_tags (h r)) t > 0"
      using r t by (simp_all add: count_list_pos)
    then have "count_list (getEntitiesByTag (flush_additions h m) t) r > 0"
      by (simp add: count_tag_flush_additions)
    then have "count_list (getEntitiesByTag (update h m) t) r > 0"
      using rm0 by (simp add: count_tag_update)
    then show "r \<in> set (getEntitiesByTag (update h m) t)"
      using count_list_0_iff [of "getEntitiesByTag (update h m) t" r] by auto
  qed
qed

lemma removed_gone:
  assumes keyed: "store_keyed h m"
    and rm: "r \<in> set (entitiesToRemove m)
             \<or> (r \<in> snd ` set (entities (flush_additions h m)) \<and> Entity_destroy (h r))"
  shows "getEntity (update h m) (Entity_id (h r)) = None"
    and "r \<notin> snd ` set (entities (update h m))"
    and "r \<notin> set (returned (getEntitiesWith h (update h m) ks))"
    and "\<forall>t \<in> set (Entity_tags (h r)).
           count_list (getEntitiesByTag (flush_additions h m) t) r \<le> 1
           \<longrightarrow> r \<notin> set (getEntitiesByTag (update h m) t)"
proof -
  let ?es1 = "entities (flush_additions h m)"
  let ?dead = "filter (\<lambda>r. Entity_destroy (h r)) (map snd ?es1)"
  have inrm: "r \<in> set (entitiesToRemove m @ ?dead)"
    using rm by auto
  then show none: "getEntity (update h m) (Entity_id (h r)) = None"
    by (simp only: getEntity_update) (simp add: image_iff, blast)
  show out: "r \<notin> snd ` set (entities (update h m))"
  proof
    assume "r \<in> snd ` set (entities (update h m))"
    then obtain k where kr: "(k, r) \<in> set (entities (update h m))" by auto
    then have "k = Entity_id (h r)" by (rule stored_after_update(1) [OF keyed])
    with kr have "Entity_id (h r) \<in> fst ` set (entities (update h m))" by force
    with none show False
      by (simp add: getEntity_def map_of_eq_None_iff)
  qed
  then show "r \<notin> set (returned (getEntitiesWith h (update h m) ks))"
    using returned_getEntitiesWith(1) by blast
  show "\<forall>t \<in> set (Entity_tags (h r)).
           count_list (getEntitiesByTag (flush_additions h m) t) r \<le> 1
           \<longrightarrow> r \<notin> set (getEntitiesByTag (update h m) t)"
  proof (intro ballI impI)
    fix t assume t: "t \<in> set (Entity_tags (h r))"
      and once: "count_list (getEntitiesByTag (flush_additions h m) t) r \<le> 1"
    have "0 < count_list (entitiesToRemove m @ ?dead) r" "0 < count_list (Entity_tags (h r)) t"
      using inrm t by (simp_all only: count_list_pos)
    then have "0 < count_list (entitiesToRemove m @ ?dead) r * count_list (Entity_tags (h r)) t"
      by (rule mult_pos_pos)
    with once have "count_list (getEntitiesByTag (update h m) t) r = 0"
      unfolding count_tag_update by linarith
    then show "r \<notin> set (getEntitiesByTag (update h m) t)"
      by (simp add: count_list_0_iff)
  qed
qed

lemma demo_double_add:
  "update demo_flush_heap (addEntity 4 (addEntity 4 new_EntityManager))
     = \<lparr>entities = [(''_dup'', 4)], entitiesByTag = [(''obstacle'', [4, 4])],
        entitiesToAdd = [], entitiesToRemove = []\<rparr>"
  "update demo_flush_heap
     (removeEntity 4 \<lparr>entities = [(''_dup'', 4)], entitiesByTag = [(''obstacle'', [4, 4])],
                      entitiesToAdd = [], entitiesToRemove = []\<rparr>)
     = \<lparr>entities = [], entitiesByTag = [(''obstacle'', [4])],
        entitiesToAdd = [], entitiesToRemove = []\<rparr>"
  "update demo_flush_heap (addEntity 3 (addEntity 3 new_EntityManager))
     = \<lparr>entities = [], entitiesByTag = [(''obstacle'', [3])],
        entitiesToAdd = [], entitiesToRemove = []\<rparr>"
  by (simp_all add: update_def flush_additions_def stage_destroyed_def flush_removals_def
        addEntity_def removeEntity_def new_EntityManager_def add_staged_def remove_staged_def
        index_tag_def unindex_tag_def bucket_def demo_flush_entities)

text \<open>
  C2, as stated, says that the flush removes every staged-for-removal entity and every
  stored entity marked \<open>destroy\<close> from the tag indices. The removal splices out one
  occurrence (\<^verbatim>\<open>indexOf\<close>, \<^verbatim>\<open>splice(index, 1)\<close>) and nothing prevents an entity from
  being indexed twice: an obstacle staged twice with \<^verbatim>\<open>addEntity\<close>, flushed, then
  staged with \<^verbatim>\<open>removeEntity\<close> and flushed again leaves the store but stays in the
  bucket of its tag; so does an obstacle marked \<open>destroy\<close> that was staged twice,
  within a single flush.
\<close>

theorem C2_tag_index_counterexample:
  "entities (update demo_flush_heap
       (removeEntity 4 (update demo_flush_heap (addEntity 4 (addEntity 4 new_EntityManager))))) = []
   \<and> getEntitiesByTag (update demo_flush_heap
       (removeEntity 4 (update demo_flush_heap (addEntity 4 (addEntity 4 new_EntityManager)))))
         ''obstacle'' = [4]
   \<and> Entity_destroy (demo_flush_heap 3)
   \<and> entities (update demo_flush_heap (addEntity 3 (addEntity 3 new_EntityManager))) = []
   \<and> getEntitiesByTag (update demo_flush_heap (addEntity 3 (addEntity 3 new_EntityManager)))
         ''obstacle'' = [3]"
  by (simp add: demo_double_add demo_flush_entities getEntitiesByTag_def bucket_def)

text \<open>
  C2 (amended): with the store keyed by entity id, \<^verbatim>\<open>addEntity\<close> and
  \<^verbatim>\<open>removeEntity\<close> change neither the primary store nor the tag indices, so every
  query answers as before until the next \<^verbatim>\<open>update\<close>: an entity staged for addition
  that is not already stored is not returned, and one staged for removal is returned
  exactly if it was before (so not when its \<open>destroy\<close> flag is set). \<^verbatim>\<open>update\<close>
  puts a staged addition into the store under its id and into the bucket of each of
  its tags (it stays there when it is not marked \<open>destroy\<close>, its id is not staged for
  removal and no other staged addition has its id); it then removes from the store, by
  id, every staged-for-removal entity and every stored entity marked \<open>destroy\<close>, and
  removes such an entity from the bucket of each of its tags when it occurs there at
  most once.
\<close>

theorem C2_staging_and_flush:
  assumes "store_keyed h m"
  shows
    "entities (addEntity r m) = entities m \<and> entitiesByTag (addEntity r m) = entitiesByTag m
     \<and> entities (removeEntity r m) = entities m \<and> entitiesByTag (removeEntity r m) = entitiesByTag m
     \<and> getEntitiesWith h (addEntity r m) ks = getEntitiesWith h m ks
     \<and> getEntitiesWith h (removeEntity r m) ks = getEntitiesWith h m ks
     \<and> (r \<notin> snd ` set (entities m) \<longrightarrow> r \<notin> set (returned (getEntitiesWith h (addEntity r m) ks)))
     \<and> (Entity_destroy (h r) \<longrightarrow> r \<notin> set (returned (getEntitiesWith h (removeEntity r m) ks)))
     \<and> (r \<in> set (entitiesToAdd m) \<and> \<not> Entity_destroy (h r)
          \<and> Entity_id (h r) \<notin> (\<lambda>x. Entity_id (h x)) ` set (entitiesToRemove m)
          \<and> (\<forall>r' \<in> set (entitiesToAdd m). Entity_id (h r') = Entity_id (h r) \<longrightarrow> r' = r)
        \<longrightarrow> getEntity (update h m) (Entity_id (h r)) = Some r
            \<and> (\<forall>t \<in> set (Entity_tags (h r)). r \<in> set (getEntitiesByTag (update h m) t)))
     \<and> (r \<in> set (entitiesToRemove m)
          \<or> (r \<in> snd ` set (entities (flush_additions h m)) \<and> Entity_destroy (h r))
        \<longrightarrow> getEntity (update h m) (Entity_id (h r)) = None
            \<and> r \<notin> snd ` set (entities (update h m))
            \<and> r \<notin> set (returned (getEntitiesWith h (update h m) ks))
            \<and> (\<forall>t \<in> set (Entity_tags (h r)).
                  count_list (getEntitiesByTag (flush_additions h m) t) r \<le> 1
                  \<longrightarrow> r \<notin> set (getEntitiesByTag (update h m) t)))"
proof -
  have fresh: "r \<notin> snd ` set (entities m) \<longrightarrow> r \<notin> set (returned (getEntitiesWith h (addEntity r m) ks))"
    using returned_getEntitiesWith(1) [of r h m ks] by (auto simp: staging_frame)
  have dead: "Entity_destroy (h r) \<longrightarrow> r \<notin> set (returned (getEntitiesWith h (removeEntity r m) ks))"
    using returned_getEntitiesWith(3) by blast
  have added: "r \<in> set (entitiesToAdd m) \<and> \<not> Entity_destroy (h r)
          \<and> Entity_id (h r) \<notin> (\<lambda>x. Entity_id (h x)) ` set (entitiesToRemove m)
          \<and> (\<forall>r' \<in> set (entitiesToAdd m). Entity_id (h r') = Entity_id (h r) \<longrightarrow> r' = r)
        \<longrightarrow> getEntity (update h m) (Entity_id (h r)) = Some r
            \<and> (\<forall>t \<in> set (Entity_tags (h r)). r \<in> set (getEntitiesByTag (update h m) t))"
  proof
    assume a: "r \<in> set (entitiesToAdd m) \<and> \<not> Entity_destroy (h r)
          \<and> Entity_id (h r) \<notin> (\<lambda>x. Entity_id (h x)) ` set (entitiesToRemove m)
          \<and> (\<forall>r' \<in> set (entitiesToAdd m). Entity_id (h r') = Entity_id (h r) \<longrightarrow> r' = r)"
    then have a1: "r \<in> set (entitiesToAdd m)" and a2: "\<not> Entity_destroy (h r)"
      and a3: "Entity_id (h r) \<notin> (\<lambda>x. Entity_id (h x)) ` set (entitiesToRemove m)"
      and a4: "\<forall>r' \<in> set (entitiesToAdd m). Entity_id (h r') = Entity_id (h r) \<longrightarrow> r' = r"
      by blast+
    show "getEntity (update h m) (Entity_id (h r)) = Some r
            \<and> (\<forall>t \<in> set (Entity_tags (h r)). r \<in> set (getEntitiesByTag (update h m) t))"
      using added_survives(1) [OF assms a1 a2 a3 a4] added_survives(2) [OF assms a1 a2 a3 a4]
      by blast
  qed
  have removed: "r \<in> set (entitiesToRemove m)
          \<or> (r \<in> snd ` set (entities (flush_additions h m)) \<and> Entity_destroy (h r))
        \<longrightarrow> getEntity (update h m) (Entity_id (h r)) = None
            \<and> r \<notin> snd ` set (entities (update h m))
            \<and> r \<notin> set (returned (getEntitiesWith h (update h m) ks))
            \<and> (\<forall>t \<in> set (Entity_tags (h r)).
                  count_list (getEntitiesByTag (flush_additions h m) t) r \<le> 1
                  \<longrightarrow> r \<notin> set (getEntitiesByTag (update h m) t))"
  proof
    assume rm: "r \<in> set (entitiesToRemove m)
          \<or> (r \<in> snd ` set (entities (flush_additions h m)) \<and> Entity_destroy (h r))"
    show "getEntity (update h m) (Entity_id (h r)) = None
            \<and> r \<notin> snd ` set (entities (update h m))
            \<and> r \<notin> set (returned (getEntitiesWith h (update h m) ks))
            \<and> (\<forall>t \<in> set (Entity_tags (h r)).
                  count_list (getEntitiesByTag (flush_additions h m) t) r \<le> 1
                  \<longrightarrow> r \<notin> set (getEntitiesByTag (update h m) t))"
      using removed_gone(1) [OF assms rm] removed_gone(2) [OF assms rm]
        removed_gone(3) [OF assms rm, of ks] removed_gone(4) [OF assms rm]
      by blast
  qed
  show ?thesis
    using fresh dead added removed by (simp only: staging_frame simp_thms)
qed

lemma demo_stage_and_flush:
  "update demo_flush_heap (removeEntity 2 (addEntity 4 demo_manager))
     = \<lparr>entities = [(''_player'', 0), (''_dup'', 4)],
        entitiesByTag = [(''player'', [0]), (''collectible'', []), (''building'', []),
                         (''streetart'', []), (''obstacle'', [4])],
        entitiesToAdd = [], entitiesToRemove = []\<rparr>"
  "flush_additions demo_flush_heap (removeEntity 2 (addEntity 4 demo_manager))
     = \<lparr>entities = [(''_player'', 0), (''_can'', 5), (''_wall'', 2), (''_dup'', 4)],
        entitiesByTag = [(''player'', [0]), (''collectible'', [5]), (''building'', [2]),
                         (''streetart'', [2]), (''obstacle'', [4])],
        entitiesToAdd = [], entitiesToRemove = [2]\<rparr>"
  by (simp_all add: update_def flush_additions_def stage_destroyed_def flush_removals_def
        addEntity_def removeEntity_def add_staged_def remove_staged_def
        index_tag_def unindex_tag_def bucket_def demo_manager_fields demo_flush_entities)

theorem C2_staging_and_flush_witness:
  "getEntitiesWith demo_flush_heap (removeEntity 2 (addEntity 4 demo_manager)) [ByString ''Transform'']
     = getEntitiesWith demo_flush_heap demo_manager [ByString ''Transform'']
   \<and> 4 \<notin> set (returned (getEntitiesWith demo_flush_heap (addEntity 4 demo_manager) [ByString ''Transform'']))
   \<and> getEntity (update demo_flush_heap (removeEntity 2 (addEntity 4 demo_manager))) ''_dup'' = Some 4
   \<and> 4 \<in> set (getEntitiesByTag (update demo_flush_heap (removeEntity 2 (addEntity 4 demo_manager)))
                  ''obstacle'')
   \<and> getEntity (update demo_flush_heap (removeEntity 2 (addEntity 4 demo_manager))) ''_wall'' = None
   \<and> 2 \<notin> set (getEntitiesByTag (update demo_flush_heap (removeEntity 2 (addEntity 4 demo_manager)))
                  ''streetart'')
   \<and> getEntity (update demo_flush_heap (removeEntity 2 (addEntity 4 demo_manager))) ''_can'' = None
   \<and> 5 \<notin> set (getEntitiesByTag (update demo_flush_heap (removeEntity 2 (addEntity 4 demo_manager)))
                  ''collectible'')"
proof -
  let ?m = "removeEntity 2 (addEntity 4 demo_manager)"
  have keyed: "store_keyed demo_flush_heap ?m" "store_keyed demo_flush_heap demo_manager"
    "store_keyed demo_flush_heap (addEntity 4 demo_manager)"
    using demo_manager_keyed by (simp_all add: store_keyed_staging)
  have staged: "entitiesToAdd ?m = [4]" "entitiesToRemove ?m = [2]"
    by (simp_all add: addEntity_def removeEntity_def demo_manager_fields)
  note c4 = C2_staging_and_flush [OF keyed(1), where r = 4 and ks = "[ByString ''Transform'']"]
  note c2 = C2_staging_and_flush [OF keyed(1), where r = 2 and ks = "[ByString ''Transform'']"]
  note c5 = C2_staging_and_flush [OF keyed(1), where r = 5 and ks = "[ByString ''Transform'']"]
  note s4 = C2_staging_and_flush [OF keyed(2), where r = 4 and ks = "[ByString ''Transform'']"]
  note s2 = C2_staging_and_flush [OF keyed(3), where r = 2 and ks = "[ByString ''Transform'']"]
  have q: "getEntitiesWith demo_flush_heap ?m [ByString ''Transform'']
             = getEntitiesWith demo_flush_heap demo_manager [ByString ''Transform'']"
    using s4 s2 by simp
  have "4 \<notin> snd ` set (entities demo_manager)"
    by (simp add: demo_manager_fields)
  with s4 have fresh:
    "4 \<notin> set (returned (getEntitiesWith demo_flush_heap (addEntity 4 demo_manager) [ByString ''Transform'']))"
    by blast
  have "4 \<in> set (entitiesToAdd ?m) \<and> \<not> Entity_destroy (demo_flush_heap 4)
          \<and> Entity_id (demo_flush_heap 4) \<notin> (\<lambda>x. Entity_id (demo_flush_heap x)) ` set (entitiesToRemove ?m)
          \<and> (\<forall>r' \<in> set (entitiesToAdd ?m).
                Entity_id (demo_flush_heap r') = Entity_id (demo_flush_heap 4) \<longrightarrow> r' = 4)"
    by (simp add: staged demo_flush_entities)
  with c4 have "getEntity (update demo_flush_heap ?m) (Entity_id (demo_flush_heap 4)) = Some 4
            \<and> (\<forall>t \<in> set (Entity_tags (demo_flush_heap 4)).
                  4 \<in> set (getEntitiesByTag (update demo_flush_heap ?m) t))"
    by blast
  then have add4: "getEntity (update demo_flush_heap ?m) ''_dup'' = Some 4
              \<and> 4 \<in> set (getEntitiesByTag (update demo_flush_heap ?m) ''obstacle'')"
    by (simp add: demo_flush_entities)
  have "2 \<in> set (entitiesToRemove ?m)"
    by (simp add: staged)
  with c2 have "getEntity (update demo_flush_heap ?m) (Entity_id (demo_flush_heap 2)) = None
            \<and> (\<forall>t \<in> set (Entity_tags (demo_flush_heap 2)).
                  count_list (getEntitiesByTag (flush_additions demo_flush_heap ?m) t) 2 \<le> 1
                  \<longrightarrow> 2 \<notin> set (getEntitiesByTag (update demo_flush_heap ?m) t))"
    by blast
  then have rm2: "getEntity (update demo_flush_heap ?m) ''_wall'' = None
              \<and> 2 \<notin> set (getEntitiesByTag (update demo_flush_heap ?m) ''streetart'')"
    by (simp add: demo_flush_entities demo_stage_and_flush(2) getEntitiesByTag_def bucket_def)
  have "5 \<in> snd ` set (entities (flush_additions demo_flush_heap ?m))
          \<and> Entity_destroy (demo_flush_heap 5)"
    by (simp add: demo_stage_and_flush(2) demo_flush_entities)
  with c5 have "getEntity (update demo_flush_heap ?m) (Entity_id (demo_flush_heap 5)) = None
            \<and> (\<forall>t \<in> set (Entity_tags (demo_flush_heap 5)).
                  count_list (getEntitiesByTag (flush_additions demo_flush_heap ?m) t) 5 \<le> 1
                  \<longrightarrow> 5 \<notin> set (getEntitiesByTag (update demo_flush_heap ?m) t))"
    by blast
  then have rm5: "getEntity (update demo_flush_heap ?m) ''_can'' = None
              \<and> 5 \<notin> set (getEntitiesByTag (update demo_flush_heap ?m) ''collectible'')"
    by (simp add: demo_flush_entities demo_stage_and_flush(2) getEntitiesByTag_def bucket_def)
  from q fresh add4 rm2 rm5 show ?thesis by simp
qed

section \<open>EntityManager: the flush postcondition\<close>







lemma demo_evict_entities:
  "Entity_id (demo_evict_heap 0) = ''_player''" "Entity_id (demo_evict_heap 5) = ''_can''"
  "Entity_id (demo_evict_heap 2) = ''_wall''" "Entity_id (demo_evict_heap 6) = ''_wall''"
  "Entity_tags (demo_evict_heap 0) = [''player'']" "Entity_tags (demo_evict_heap 5) = [''collectible'']"
  "Entity_tags (demo_evict_heap 2) = [''building'', ''streetart'']"
  "Entity_tags (demo_evict_heap 6) = [''obstacle'']"
  "\<not> Entity_destroy (demo_evict_heap 0)" "Entity_destroy (demo_evict_heap 5)"
  "\<not> Entity_destroy (demo_evict_heap 2)" "Entity_destroy (demo_evict_heap 6)"
  by (simp_all add: demo_evict_heap_def demo_flush_heap_def demo_heap_def demo_obstacle_def
        demo_player_def demo_spray_can_def demo_wall_def demo_box_def addComponent_def addTag_def
        new_Entity_def)



lemma demo_evict:
  "update demo_evict_heap (addEntity 6 demo_manager)
     = \<lparr>entities = [(''_player'', 0)],
        entitiesByTag = [(''player'', [0]), (''collectible'', []), (''building'', [2]),
                         (''streetart'', [2]), (''obstacle'', [])],
        entitiesToAdd = [], entitiesToRemove = []\<rparr>"
  by (simp add: update_def flush_additions_def stage_destroyed_def flush_removals_def
        addEntity_def add_staged_def remove_staged_def index_tag_def unindex_tag_def bucket_def
        demo_manager_fields demo_evict_entities)




end
